theory Spec2Isabelle
  imports Complex_Main "HOL-Library.Log_Nat"
begin

chapter \<open>The model\<close>

section \<open>JavaScript values used by the threat-detection pipeline\<close>

text \<open>
  A JavaScript string is a sequence of UTF-16 code units.  A \<^typ>\<open>string\<close> of the model
  is a JavaScript string all of whose code units are below 256, and a \<^typ>\<open>char\<close> is one
  code unit; text with code units from U+0100 on has no counterpart in the model.
\<close>

text \<open>
  Time stamps travel through the program as ISO-8601 strings produced by
  \<^verbatim>\<open>new Date().toISOString()\<close> and are read back with \<^verbatim>\<open>new Date(s).getTime()\<close>.
  Both directions are exact at millisecond precision, so a time stamp is modelled by the
  integer number of milliseconds since the epoch it denotes.  A time value has magnitude
  at most 8.64e15, which is below \<open>2 ^ 53\<close>: time values, the constants added to them and
  the outcomes of comparing their differences with the program's windows are exact in the
  program's double-precision arithmetic, and the model computes them on integers.  The wall
  clock (\<^verbatim>\<open>Date.now()\<close>, \<^verbatim>\<open>new Date()\<close>) is an explicit argument \<open>now\<close>.  The host time
  zone is taken to be UTC.
\<close>

type_synonym millis = int

text \<open>A JavaScript number that may be \<^verbatim>\<open>NaN\<close>: \<open>None\<close> is \<^verbatim>\<open>NaN\<close>.\<close>

type_synonym jsnum = "int option"

definition js_minus :: "jsnum \<Rightarrow> jsnum \<Rightarrow> jsnum" where
  "js_minus a b = (case a of None \<Rightarrow> None
                   | Some x \<Rightarrow> (case b of None \<Rightarrow> None | Some y \<Rightarrow> Some (x - y)))"

definition js_less :: "jsnum \<Rightarrow> jsnum \<Rightarrow> bool" where
  "js_less a b = (case a of None \<Rightarrow> False
                  | Some x \<Rightarrow> (case b of None \<Rightarrow> False | Some y \<Rightarrow> x < y))"

text \<open>\<^verbatim>\<open>s.includes(sub)\<close>: \<open>sub\<close> occurs in \<open>s\<close> as a contiguous substring.\<close>

fun str_includes :: "string \<Rightarrow> string \<Rightarrow> bool" where
  "str_includes [] sub = (sub = [])"
| "str_includes (c # cs) sub = (take (length sub) (c # cs) = sub \<or> str_includes cs sub)"

text \<open>\<^verbatim>\<open>xs.join(sep)\<close>.\<close>

fun join :: "string \<Rightarrow> string list \<Rightarrow> string" where
  "join sep [] = []"
| "join sep [x] = x"
| "join sep (x # y # ys) = x @ sep @ join sep (y # ys)"

text \<open>\<^verbatim>\<open>getHours()\<close> and \<^verbatim>\<open>getDay()\<close> (0 is Sunday; 1 January 1970 was a Thursday).\<close>

definition getHours :: "millis \<Rightarrow> int" where
  "getHours ms = (ms div 3600000) mod 24"

definition getMinutes :: "millis \<Rightarrow> int" where
  "getMinutes ms = (ms div 60000) mod 60"

definition getDay :: "millis \<Rightarrow> int" where
  "getDay ms = (ms div 86400000 + 4) mod 7"

text \<open>
  A lookup \<^verbatim>\<open>table[key] || 0\<close> in an object literal whose own properties are numbers.  A
  key the literal lists reads as its number.  The literal inherits from
  \<^verbatim>\<open>Object.prototype\<close>, so a key that names one of the prototype's properties reads as
  that property, a function or (for \<^verbatim>\<open>__proto__\<close>) the prototype itself, which is truthy
  and not a number: \<open>Inherited key\<close>.  Any other key reads as \<^verbatim>\<open>undefined\<close>, and the
  result is 0.
\<close>

definition objectPrototypeKeys :: "string list" where
  "objectPrototypeKeys =
     [''constructor'', ''__defineGetter__'', ''__defineSetter__'', ''hasOwnProperty'',
      ''__lookupGetter__'', ''__lookupSetter__'', ''isPrototypeOf'', ''propertyIsEnumerable'',
      ''toString'', ''valueOf'', ''__proto__'', ''toLocaleString'']"

datatype tableValue = Num int | Inherited string

definition lookup_or0 :: "(string \<times> int) list \<Rightarrow> string \<Rightarrow> tableValue" where
  "lookup_or0 tbl k =
     (case map_of tbl k of
        Some w \<Rightarrow> Num w
      | None \<Rightarrow> (if List.member objectPrototypeKeys k then Inherited k else Num 0))"

text \<open>
  The string an inherited property converts to when it is compared: a built-in function
  prints as \<^verbatim>\<open>function NAME() { [native code] }\<close> (\<^verbatim>\<open>constructor\<close> is the function
  \<^verbatim>\<open>Object\<close>), the prototype object as \<^verbatim>\<open>[object Object]\<close>.
\<close>

definition primitiveString :: "string \<Rightarrow> string" where
  "primitiveString k =
     (if k = ''__proto__'' then ''[object Object]''
      else ''function '' @ (if k = ''constructor'' then ''Object'' else k)
           @ ''() { [native code] }'')"

text \<open>The order of strings under \<^verbatim>\<open><\<close>: lexicographic in the code units.\<close>

fun str_less :: "string \<Rightarrow> string \<Rightarrow> bool" where
  "str_less [] [] = False"
| "str_less [] (y # ys) = True"
| "str_less (x # xs) [] = False"
| "str_less (x # xs) (y # ys) =
     ((of_char x :: nat) < of_char y \<or> (x = y \<and> str_less xs ys))"

text \<open>
  \<^verbatim>\<open>a > b\<close> on two lookup results: numbers compare as numbers; two inherited properties
  compare as their strings; an inherited property against a number converts to
  \<^verbatim>\<open>NaN\<close> and the comparison is false.
\<close>

definition js_greater :: "tableValue \<Rightarrow> tableValue \<Rightarrow> bool" where
  "js_greater a b =
     (case a of
        Num x \<Rightarrow> (case b of Num y \<Rightarrow> x > y | Inherited l \<Rightarrow> False)
      | Inherited k \<Rightarrow>
          (case b of
             Num y \<Rightarrow> False
           | Inherited l \<Rightarrow> str_less (primitiveString l) (primitiveString k)))"

text \<open>
  Arithmetic with fractions is IEEE 754 double precision in the program.  A finite double
  is a rational number, and every operation returns the double nearest to the exact result,
  ties to the even significand: \<open>dbl\<close> is that rounding.  \<open>floorLog2 x\<close> is the \<open>e\<close> with
  \<open>2 ^ e \<le> x < 2 ^ (e + 1)\<close> for positive \<open>x\<close>; the spacing of the doubles around \<open>x\<close> is
  \<open>2 ^ (e - 52)\<close>, and \<open>2 ^ (- 1074)\<close> below the normal range.  Results of magnitude
  \<open>2 ^ 1024\<close> or more (infinite in the program) are not modelled.
\<close>

definition pow2 :: "int \<Rightarrow> rat" where
  "pow2 e = (if e \<ge> 0 then 2 ^ nat e else 1 / 2 ^ nat (- e))"

definition floorLog2 :: "rat \<Rightarrow> int" where
  "floorLog2 x = (if x \<ge> 1 then bitlen \<lfloor>x\<rfloor> - 1 else - bitlen (\<lceil>1 / x\<rceil> - 1))"

definition roundHalfEven :: "rat \<Rightarrow> int" where
  "roundHalfEven m =
     (let f = \<lfloor>m\<rfloor>; d = m - rat_of_int f
      in if d < 1 / 2 then f
         else if d > 1 / 2 then f + 1
         else if even f then f else f + 1)"

definition dbl :: "rat \<Rightarrow> rat" where
  "dbl x =
     (if x = 0 then 0
      else let e = floorLog2 \<bar>x\<bar>;
               q = pow2 (max e (- 1022) - 52)
           in rat_of_int (roundHalfEven (x / q)) * q)"


section \<open>BehaviorAnalyzer\<close>

record activity =
  act_action :: string
  act_timestamp :: millis

text \<open>
  \<^verbatim>\<open>activityLog\<close> is a \<^verbatim>\<open>Map\<close> from source IP to the array of its activities; a
  \<^verbatim>\<open>Map\<close> iterates its keys in insertion order, so it is an association list in which
  \<^verbatim>\<open>set\<close> on a present key keeps the key's position.
\<close>

type_synonym activityLog = "(string \<times> activity list) list"

definition log_has :: "activityLog \<Rightarrow> string \<Rightarrow> bool" where
  "log_has lg ip = (map_of lg ip \<noteq> None)"

fun log_set :: "activityLog \<Rightarrow> string \<Rightarrow> activity list \<Rightarrow> activityLog" where
  "log_set [] ip v = [(ip, v)]"
| "log_set ((k, w) # rest) ip v =
     (if k = ip then (k, v) # rest else (k, w) # log_set rest ip v)"

definition log_activities :: "activityLog \<Rightarrow> string \<Rightarrow> activity list" where
  \<comment> \<open>\<^verbatim>\<open>this.activityLog.get(ip) || []\<close>\<close>
  "log_activities lg ip = (case map_of lg ip of None \<Rightarrow> [] | Some acts \<Rightarrow> acts)"

definition cleanup :: "millis \<Rightarrow> string \<Rightarrow> activityLog \<Rightarrow> activityLog" where
  "cleanup now ip lg =
     (let oneHourAgo = now - 60 * 60 * 1000 in
      case map_of lg ip of
        None \<Rightarrow> lg
      | Some activities \<Rightarrow>
          log_set lg ip (filter (\<lambda>a. act_timestamp a > oneHourAgo) activities))"

definition trackActivity ::
  "millis \<Rightarrow> string \<Rightarrow> string \<Rightarrow> millis \<Rightarrow> activityLog \<Rightarrow> activityLog" where
  "trackActivity now ip action ts lg =
     (let lg1 = (if log_has lg ip then lg else log_set lg ip []);
          lg2 = log_set lg1 ip
                  (log_activities lg1 ip @ [\<lparr>act_action = action, act_timestamp = ts\<rparr>])
      in cleanup now ip lg2)"

record frequency =
  rate :: nat
  isHighFrequency :: bool

definition maxAttemptsPerMinute :: nat where "maxAttemptsPerMinute = 30"
definition maxFailedLogins :: nat where "maxFailedLogins = 5"

definition calculateFrequency :: "millis \<Rightarrow> activity list \<Rightarrow> frequency" where
  "calculateFrequency now activities =
     (if activities = [] then \<lparr>rate = 0, isHighFrequency = False\<rparr>
      else let recentActivities = filter (\<lambda>a. now - act_timestamp a \<le> 60000) activities
           in \<lparr>rate = length recentActivities,
               isHighFrequency = (length recentActivities > maxAttemptsPerMinute)\<rparr>)"

text \<open>
  The result of \<^verbatim>\<open>checkTimingPatterns\<close>; on an empty history the object is
  \<^verbatim>\<open>{ suspicious: false }\<close> and the other two properties are absent (\<open>None\<close>).
\<close>

record timing =
  suspicious :: bool
  regularPattern :: "bool option"
  unusualTiming :: "bool option"

fun intervals :: "millis list \<Rightarrow> millis list" where
  "intervals (a # b # rest) = (b - a) # intervals (b # rest)"
| "intervals _ = []"

text \<open>
  \<^verbatim>\<open>checkRegularIntervals\<close>: the intervals are differences of time values, and the two sums,
  the differences from the average and the two quotients are rounded as the program rounds
  them.
\<close>

definition checkRegularIntervals :: "millis list \<Rightarrow> bool" where
  "checkRegularIntervals ivs =
     (if length ivs < 3 then False
      else let xs = map (\<lambda>iv. dbl (rat_of_int iv)) ivs;
               n = rat_of_nat (length xs);
               avgInterval = dbl (foldl (\<lambda>a b. dbl (a + b)) 0 xs / n);
               deviation =
                 dbl (foldl (\<lambda>acc x. dbl (acc + \<bar>dbl (x - avgInterval)\<bar>)) 0 xs / n)
           in deviation < 100)"

definition checkTimingPatterns :: "activity list \<Rightarrow> timing" where
  "checkTimingPatterns activities =
     (if activities = [] then \<lparr>suspicious = False, regularPattern = None, unusualTiming = None\<rparr>
      else let timestamps = map act_timestamp activities;
               isRegularPattern = checkRegularIntervals (intervals timestamps);
               hasUnusualTiming =
                 list_ex (\<lambda>a. getHours (act_timestamp a) \<ge> 2 \<and> getHours (act_timestamp a) \<le> 5)
                   activities
           in \<lparr>suspicious = (isRegularPattern \<or> hasUnusualTiming),
               regularPattern = Some isRegularPattern,
               unusualTiming = Some hasUnusualTiming\<rparr>)"

text \<open>
  What \<^verbatim>\<open>new Date(x).getTime()\<close> returns.  Given a time-stamp string it is the time in
  milliseconds.  Given an activity object \<^verbatim>\<open>{ action, timestamp }\<close> the constructor
  converts the object to the primitive string \<^verbatim>\<open>"[object Object]"\<close>, which is not a
  date, and \<^verbatim>\<open>getTime()\<close> is \<^verbatim>\<open>NaN\<close>.
\<close>

datatype date_arg = TimestampString millis | ActivityObject activity

fun Date_getTime :: "date_arg \<Rightarrow> jsnum" where
  "Date_getTime (TimestampString ms) = Some ms"
| "Date_getTime (ActivityObject a) = None"

text \<open>
  The loop of \<^verbatim>\<open>checkRapidSuccession\<close> from index \<open>i\<close> on; \<open>prev\<close> is
  \<^verbatim>\<open>activities[i - 1]\<close>.  The subtrahend is \<^verbatim>\<open>new Date(activities[i - 1]).getTime()\<close>:
  the activity object itself, not its \<^verbatim>\<open>timestamp\<close>.
\<close>

fun rapidLoop :: "activity \<Rightarrow> activity list \<Rightarrow> bool" where
  "rapidLoop prev [] = False"
| "rapidLoop prev (a # rest) =
     (let timeDiff = js_minus (Date_getTime (TimestampString (act_timestamp a)))
                              (Date_getTime (ActivityObject prev))
      in if js_less timeDiff (Some 1000) then True else rapidLoop a rest)"

definition checkRapidSuccession :: "activity list \<Rightarrow> bool" where
  "checkRapidSuccession activities =
     (case activities of
        [] \<Rightarrow> False
      | [a] \<Rightarrow> False
      | a # b # rest \<Rightarrow> rapidLoop a (b # rest))"

definition containsSequence :: "string list \<Rightarrow> string list \<Rightarrow> bool" where
  "containsSequence array sequence = str_includes (join '','' array) (join '','' sequence)"

definition knownPatterns :: "string list list" where
  "knownPatterns =
     [[''failed_login'', ''success_login'', ''access_sensitive''],
      [''port_scan'', ''vulnerability_scan'', ''exploit_attempt'']]"

definition detectKnownPatterns :: "activity list \<Rightarrow> bool" where
  "detectKnownPatterns activities =
     (let actions = map act_action activities
      in list_ex (\<lambda>pattern. containsSequence actions pattern) knownPatterns)"

record sequenceDetails =
  failedLogins :: bool
  rapidSuccession :: bool
  patternDetected :: bool

record sequenceSignal =
  seq_suspicious :: bool
  details :: sequenceDetails

definition checkActionSequence :: "activity list \<Rightarrow> sequenceSignal" where
  "checkActionSequence activities =
     (let failed = length (filter (\<lambda>a. act_action a = ''failed_login'') activities);
          suspiciousSequences =
            \<lparr>failedLogins = (failed \<ge> maxFailedLogins),
             rapidSuccession = checkRapidSuccession activities,
             patternDetected = detectKnownPatterns activities\<rparr>
      in \<lparr>seq_suspicious = (failedLogins suspiciousSequences
                              \<or> rapidSuccession suspiciousSequences
                              \<or> patternDetected suspiciousSequences),
          details = suspiciousSequences\<rparr>)"

definition calculateRiskScore :: "millis \<Rightarrow> activity list \<Rightarrow> int" where
  "calculateRiskScore now activities =
     (let freq = calculateFrequency now activities;
          tim = checkTimingPatterns activities;
          sq = checkActionSequence activities;
          score = (if isHighFrequency freq then 30 else 0)
                + (if suspicious tim then 25 else 0)
                + (if seq_suspicious sq then 25 else 0)
                + min 20 (int (length activities))
      in min 100 score)"

record behaviorAnalysis =
  ba_frequency :: frequency
  ba_unusualTiming :: timing
  ba_suspiciousSequence :: sequenceSignal
  ba_riskScore :: int

definition analyzePattern :: "millis \<Rightarrow> activityLog \<Rightarrow> string \<Rightarrow> behaviorAnalysis" where
  "analyzePattern now lg ip =
     (let activities = log_activities lg ip
      in \<lparr>ba_frequency = calculateFrequency now activities,
          ba_unusualTiming = checkTimingPatterns activities,
          ba_suspiciousSequence = checkActionSequence activities,
          ba_riskScore = calculateRiskScore now activities\<rparr>)"


section \<open>Regular expressions of the pattern catalog\<close>

text \<open>
  The catalog's regular expressions use literals, alternation, concatenation and
  \<^verbatim>\<open>\s*\<close>, all under the flag \<^verbatim>\<open>i\<close>.  They are kept as syntax trees and matched by
  \<open>rx_match\<close>, which returns the remainders of the subject after every way the expression
  matches a prefix of it.  Under the flag \<^verbatim>\<open>i\<close> two code units match when their
  lower-cased forms are equal.  \<^verbatim>\<open>\s\<close> and \<^verbatim>\<open>trim()\<close> take as white space, among the
  code units below 256, the tab, the line feed, the vertical tab, the form feed, the
  carriage return, the space and the no-break space U+00A0; \<^verbatim>\<open>\d\<close>, \<^verbatim>\<open>\w\<close> and
  \<^verbatim>\<open>\b\<close> are ASCII.
\<close>

datatype rx = Lit string | Alt rx rx | Seq rx rx | SpaceStar

text \<open>
  Lower-casing on the bits of the code unit (least significant first).  The capital
  letters are the codes 0x41 to 0x5A, that is \<open>010x xxxx\<close> with the low five bits between
  1 and 26, and the codes 0xC0 to 0xDE except 0xD7, that is \<open>110x xxxx\<close> with the low five
  bits other than 23 and 31; the small letter has bit 5 set.
\<close>

fun toLowerChar :: "char \<Rightarrow> char" where
  "toLowerChar (Char b0 b1 b2 b3 b4 b5 b6 b7) =
     (if b6 \<and> \<not> b5
         \<and> (if b7
             then \<not> (b0 \<and> b1 \<and> b2 \<and> b3 \<and> b4) \<and> \<not> (b0 \<and> b1 \<and> b2 \<and> \<not> b3 \<and> b4)
             else (b0 \<or> b1 \<or> b2 \<or> b3 \<or> b4) \<and> \<not> (b4 \<and> b3 \<and> (b2 \<or> (b1 \<and> b0))))
      then Char b0 b1 b2 b3 b4 True b6 b7
      else Char b0 b1 b2 b3 b4 b5 b6 b7)"

definition toLowerCase :: "string \<Rightarrow> string" where
  "toLowerCase s = map toLowerChar s"

definition isSpaceChar :: "char \<Rightarrow> bool" where
  "isSpaceChar c =
     (c \<in> set [CHR '' '', CHR 0x09, CHR 0x0A, CHR 0x0B, CHR 0x0C, CHR 0x0D, CHR 0xA0])"

definition isDigit :: "char \<Rightarrow> bool" where
  "isDigit c = (c \<in> set ''0123456789'')"

definition isWordChar :: "char \<Rightarrow> bool" where
  "isWordChar c =
     (c \<in> set ''abcdefghijklmnopqrstuvwxyzABCDEFGHIJKLMNOPQRSTUVWXYZ0123456789_'')"

fun spaceSuffixes :: "string \<Rightarrow> string list" where
  "spaceSuffixes [] = [[]]"
| "spaceSuffixes (c # cs) = (if isSpaceChar c then spaceSuffixes cs @ [c # cs] else [c # cs])"

fun rx_match :: "rx \<Rightarrow> string \<Rightarrow> string list" where
  "rx_match (Lit l) s =
     (if toLowerCase (take (length l) s) = toLowerCase l then [drop (length l) s] else [])"
| "rx_match (Alt a b) s = rx_match a s @ rx_match b s"
| "rx_match (Seq a b) s = concat (map (rx_match b) (rx_match a s))"
| "rx_match SpaceStar s = spaceSuffixes s"

text \<open>\<^verbatim>\<open>regex.test(s)\<close>: the expression matches at some position of \<open>s\<close>.\<close>

fun rx_test :: "rx \<Rightarrow> string \<Rightarrow> bool" where
  "rx_test r [] = (rx_match r [] \<noteq> [])"
| "rx_test r (c # cs) = (rx_match r (c # cs) \<noteq> [] \<or> rx_test r cs)"

fun alts :: "string \<Rightarrow> string list \<Rightarrow> rx" where
  "alts x [] = Lit x"
| "alts x (y # ys) = Alt (Lit x) (alts y ys)"

definition spaced :: "rx \<Rightarrow> rx \<Rightarrow> rx" where
  \<comment> \<open>\<^verbatim>\<open>a\s*b\<close>\<close>
  "spaced a b = Seq a (Seq SpaceStar b)"


section \<open>PatternCatalog (patterns.js)\<close>

text \<open>
  The validator inspects the run-time type of each property, so a catalog entry holds
  JavaScript values.
\<close>

datatype jsval = JUndefined | JString string | JNumber int | JRegExp rx

record patternEntry =
  p_pattern :: jsval
  p_severity :: jsval
  p_category :: jsval
  p_threshold :: jsval
  p_timeWindow :: jsval

definition mkPattern :: "rx \<Rightarrow> string \<Rightarrow> string \<Rightarrow> int \<Rightarrow> int \<Rightarrow> patternEntry" where
  "mkPattern r sev cat th tw =
     \<lparr>p_pattern = JRegExp r, p_severity = JString sev, p_category = JString cat,
      p_threshold = JNumber th, p_timeWindow = JNumber tw\<rparr>"

definition SUSPICIOUS_PATTERNS :: "patternEntry list" where
  "SUSPICIOUS_PATTERNS =
     [mkPattern
        (spaced (alts ''unauthorized'' [''invalid'', ''failed'', ''denied''])
                (alts ''access'' [''login'', ''logon'', ''authentication'']))
        ''HIGH'' ''AUTH'' 3 300000,
      mkPattern
        (Alt (spaced (Lit ''invalid'') (Lit ''credentials''))
          (Alt (spaced (Lit ''password'') (Lit ''incorrect''))
               (spaced (Lit ''authentication'') (Lit ''failed''))))
        ''MEDIUM'' ''AUTH'' 2 300000,
      mkPattern
        (spaced (alts ''multiple'' [''repeated'', ''excessive''])
                (spaced (alts ''failed'' [''invalid'']) (alts ''login'' [''attempt''])))
        ''HIGH'' ''BRUTE_FORCE'' 1 300000,
      mkPattern
        (spaced (alts ''unknown'' [''invalid'', ''non-existent'']) (alts ''user'' [''account'']))
        ''MEDIUM'' ''SUSPICIOUS_ACCOUNT'' 2 300000,
      mkPattern
        (Alt (spaced (alts ''privilege'' [''permission''])
                     (alts ''escalation'' [''elevation'']))
             (spaced (Lit ''sudo'') (Lit ''abuse'')))
        ''HIGH'' ''PRIVILEGE_ESCALATION'' 1 300000,
      mkPattern
        (Alt (spaced (Lit ''system'') (alts ''access'' [''modification'']))
             (spaced (Lit ''registry'') (Lit ''change'')))
        ''HIGH'' ''SYSTEM_ACCESS'' 1 300000,
      mkPattern
        (Alt (spaced (alts ''port'' [''network'']) (Lit ''scan'')) (Lit ''reconnaissance''))
        ''HIGH'' ''RECONNAISSANCE'' 1 300000,
      mkPattern
        (Alt (Lit ''malware'')
          (Alt (Lit ''virus'')
            (Alt (Lit ''trojan'')
                 (spaced (Lit ''suspicious'') (alts ''execution'' [''process'', ''file''])))))
        ''HIGH'' ''MALWARE'' 1 300000]"

definition isRegExp :: "jsval \<Rightarrow> bool" where
  \<comment> \<open>\<^verbatim>\<open>v instanceof RegExp\<close>\<close>
  "isRegExp v = (case v of JRegExp r \<Rightarrow> True | _ \<Rightarrow> False)"

definition isString :: "jsval \<Rightarrow> bool" where
  \<comment> \<open>\<^verbatim>\<open>typeof v === 'string'\<close>\<close>
  "isString v = (case v of JString s \<Rightarrow> True | _ \<Rightarrow> False)"

definition validSeverities :: "jsval list" where
  "validSeverities = [JString ''HIGH'', JString ''MEDIUM'', JString ''LOW'', JString ''INFO'']"

definition validatePatterns :: "patternEntry list \<Rightarrow> bool" where
  "validatePatterns patterns =
     list_all (\<lambda>p. isRegExp (p_pattern p) \<and> isString (p_severity p)
                    \<and> isString (p_category p) \<and> List.member validSeverities (p_severity p))
       patterns"

text \<open>
  The module throws at load time unless \<open>validatePatterns SUSPICIOUS_PATTERNS\<close>; the
  pipeline therefore reads the properties of a catalog entry at their validated types.
\<close>

definition regexOf :: "patternEntry \<Rightarrow> rx" where
  "regexOf p = (case p_pattern p of JRegExp r \<Rightarrow> r | _ \<Rightarrow> Lit [])"

definition stringOf :: "jsval \<Rightarrow> string" where
  "stringOf v = (case v of JString s \<Rightarrow> s | _ \<Rightarrow> [])"

text \<open>
  The severity enumeration as the specification words it (five values), for comparison
  with \<open>validSeverities\<close>.
\<close>

definition specSeverities :: "jsval list" where
  "specSeverities =
     [JString ''CRITICAL'', JString ''HIGH'', JString ''MEDIUM'', JString ''LOW'', JString ''INFO'']"


section \<open>LineScanner helpers (logAnalyzer)\<close>

text \<open>
  \<^verbatim>\<open>extractIP\<close> returns the first match of
  \<^verbatim>\<open>/\b\d{1,3}\.\d{1,3}\.\d{1,3}\.\d{1,3}\b/\<close>.  \<open>digitRuns\<close> lists the ways
  \<^verbatim>\<open>\d{1,3}\<close> matches a prefix, longest first; \<open>ipAt\<close> lists the matches that start at
  the head of its argument, in the order the backtracking matcher finds them.
\<close>

definition digitRuns :: "string \<Rightarrow> (string \<times> string) list" where
  "digitRuns s =
     (let n = length (takeWhile isDigit (take 3 s))
      in map (\<lambda>k. (take k s, drop k s)) (rev [1..<Suc n]))"

definition dotThen :: "string \<Rightarrow> string list" where
  "dotThen s = (case s of [] \<Rightarrow> [] | c # r \<Rightarrow> (if c = CHR ''.'' then [r] else []))"

definition endBoundary :: "string \<Rightarrow> bool" where
  "endBoundary s = (case s of [] \<Rightarrow> True | c # r \<Rightarrow> \<not> isWordChar c)"

definition ipAt :: "string \<Rightarrow> string list" where
  "ipAt s =
     [a @ ''.'' @ b @ ''.'' @ c @ ''.'' @ d.
        (a, r1) \<leftarrow> digitRuns s, s1 \<leftarrow> dotThen r1,
        (b, r2) \<leftarrow> digitRuns s1, s2 \<leftarrow> dotThen r2,
        (c, r3) \<leftarrow> digitRuns s2, s3 \<leftarrow> dotThen r3,
        (d, r4) \<leftarrow> digitRuns s3, endBoundary r4]"

fun ipScan :: "bool \<Rightarrow> string \<Rightarrow> string option" where
  "ipScan prevWord [] = None"
| "ipScan prevWord (c # cs) =
     (if \<not> prevWord \<and> isDigit c
      then (case ipAt (c # cs) of
              m # ms \<Rightarrow> Some m
            | [] \<Rightarrow> ipScan (isWordChar c) cs)
      else ipScan (isWordChar c) cs)"

definition extractIP :: "string \<Rightarrow> string option" where
  "extractIP logLine = ipScan False logLine"

definition extractAction :: "string \<Rightarrow> string \<Rightarrow> string" where
  "extractAction logLine category =
     (if str_includes logLine ''failed login'' then ''failed_login''
      else if str_includes logLine ''successful login'' then ''success_login''
      else if category = ''RECONNAISSANCE'' then ''port_scan''
      else ''unknown'')"

record lineContext =
  timeWindow :: int
  occurrences :: nat
  relatedEvents :: "string list"

definition analyzeContext :: "string \<Rightarrow> string list \<Rightarrow> string list \<Rightarrow> lineContext" where
  "analyzeContext line previousLines nextLines =
     fold (\<lambda>contextLine ctx.
             if str_includes contextLine (take 20 line)
             then ctx\<lparr>occurrences := occurrences ctx + 1,
                     relatedEvents := relatedEvents ctx @ [contextLine]\<rparr>
             else ctx)
       (previousLines @ nextLines)
       \<lparr>timeWindow = 5 * 60 * 1000, occurrences = 0, relatedEvents = []\<rparr>"


section \<open>ThreatScoring\<close>

definition severityWeights :: "(string \<times> int) list" where
  "severityWeights = [(''HIGH'', 70), (''MEDIUM'', 40), (''LOW'', 20), (''INFO'', 0)]"

definition categoryWeights :: "(string \<times> int) list" where
  "categoryWeights =
     [(''AUTH'', 25), (''INJECTION'', 30), (''XSS'', 25), (''RECONNAISSANCE'', 20),
      (''MALWARE'', 30), (''FILE_SYSTEM'', 25), (''NETWORK'', 20), (''DATABASE'', 25)]"

definition severityScore :: "string \<Rightarrow> tableValue" where
  \<comment> \<open>\<^verbatim>\<open>this.severityWeights[threat.severity] || 0\<close>\<close>
  "severityScore sev = lookup_or0 severityWeights sev"

definition categoryScore :: "string \<Rightarrow> tableValue" where
  \<comment> \<open>\<^verbatim>\<open>this.categoryWeights[threat.category] || 0\<close>\<close>
  "categoryScore cat = lookup_or0 categoryWeights cat"

text \<open>The argument is \<open>None\<close> when the caller passes no context (\<^verbatim>\<open>!context\<close>).\<close>

definition calculateContextScore :: "lineContext option \<Rightarrow> int" where
  "calculateContextScore ctxo =
     (case ctxo of
        None \<Rightarrow> 0
      | Some ctx \<Rightarrow>
          (if occurrences ctx > 1 then min (int (occurrences ctx) * 5) 20 else 0)
          + (if length (relatedEvents ctx) > 0
             then min (int (length (relatedEvents ctx)) * 3) 15 else 0))"

definition calculateBehaviorScore :: "behaviorAnalysis option \<Rightarrow> int" where
  "calculateBehaviorScore bao =
     (case bao of
        None \<Rightarrow> 0
      | Some ba \<Rightarrow>
          (if isHighFrequency (ba_frequency ba) then 15 else 0)
          + (if suspicious (ba_unusualTiming ba)
             then 10 + (if regularPattern (ba_unusualTiming ba) = Some True then 5 else 0)
             else 0)
          + (if seq_suspicious (ba_suspiciousSequence ba) then 15 else 0))"

definition calculateTimeBasedScore :: "millis \<Rightarrow> int" where
  "calculateTimeBasedScore ts =
     (let hour = getHours ts; day = getDay ts
      in (if hour \<ge> 22 \<or> hour \<le> 5 then 10 else 0)
       + (if day = 0 \<or> day = 6 then 5 else 0))"

text \<open>
  The first argument of \<^verbatim>\<open>calculateThreatScore\<close> is the object
  \<^verbatim>\<open>{ severity, category, timestamp }\<close>; its three properties are passed one by one.
  Every summand that is a number is an integer, so \<^verbatim>\<open>Math.round\<close> leaves their sum as it
  is.  Where the severity or the category term is an inherited property, \<^verbatim>\<open>+=\<close> turns
  the running score into a string, \<^verbatim>\<open>Math.round\<close> of that string is \<^verbatim>\<open>NaN\<close>, and the
  result is \<^verbatim>\<open>NaN\<close> (\<open>None\<close>).
\<close>

definition calculateThreatScore ::
  "string \<Rightarrow> string \<Rightarrow> millis \<Rightarrow> lineContext option \<Rightarrow> behaviorAnalysis option \<Rightarrow> jsnum" where
  "calculateThreatScore sev cat ts ctxo bao =
     (case severityScore sev of
        Inherited k \<Rightarrow> None
      | Num severityTerm \<Rightarrow>
          (case categoryScore cat of
             Inherited k \<Rightarrow> None
           | Num categoryTerm \<Rightarrow>
               (let score = severityTerm
                          + categoryTerm
                          + calculateContextScore ctxo
                          + (case bao of None \<Rightarrow> 0
                             | Some ba \<Rightarrow> calculateBehaviorScore (Some ba))
                          + calculateTimeBasedScore ts
                in Some (min (max score 0) 100))))"

text \<open>On \<^verbatim>\<open>NaN\<close> every comparison of \<^verbatim>\<open>getThreatLevel\<close> is false.\<close>

definition getThreatLevel :: "jsnum \<Rightarrow> string" where
  "getThreatLevel scoreOrNaN =
     (case scoreOrNaN of
        None \<Rightarrow> ''INFO''
      | Some score \<Rightarrow>
          (if score \<ge> 80 then ''CRITICAL''
           else if score \<ge> 60 then ''HIGH''
           else if score \<ge> 40 then ''MEDIUM''
           else if score \<ge> 20 then ''LOW''
           else ''INFO''))"

text \<open>
  The context term as the specification words it, for comparison with
  \<open>calculateContextScore\<close>.
\<close>

definition specContextWeight :: "nat \<Rightarrow> nat \<Rightarrow> int" where
  "specContextWeight o_count r_count = min (int o_count * 5) 20 + min (int r_count * 3) 15"


definition categorySpecificActions :: "(string \<times> (string \<times> string list) list) list" where
  "categorySpecificActions =
     [(''AUTH'',
        [(''CRITICAL'', [''Reset all user credentials'', ''Enable 2FA for all users'',
                         ''Lock affected accounts'']),
         (''HIGH'', [''Review authentication logs'',
                     ''Enable additional monitoring for auth endpoints'']),
         (''MEDIUM'', [''Review failed login attempts'', ''Check for unusual login patterns'']),
         (''LOW'', [''Monitor authentication activity''])]),
      (''INJECTION'',
        [(''CRITICAL'', [''Block malicious IPs'', ''Patch vulnerable endpoints'',
                         ''Review input validation'']),
         (''HIGH'', [''Enable WAF rules'', ''Review input sanitization'']),
         (''MEDIUM'', [''Monitor SQL queries'', ''Review application logs'']),
         (''LOW'', [''Log suspicious requests''])]),
      (''XSS'',
        [(''CRITICAL'', [''Implement Content Security Policy'', ''Sanitize all user inputs'']),
         (''HIGH'', [''Review output encoding'', ''Enable XSS protection headers'']),
         (''MEDIUM'', [''Monitor suspicious patterns'', ''Review client-side scripts'']),
         (''LOW'', [''Log suspicious requests''])]),
      (''RECONNAISSANCE'',
        [(''CRITICAL'', [''Block scanning IPs'', ''Review firewall rules'']),
         (''HIGH'', [''Enable rate limiting'', ''Monitor unusual traffic patterns'']),
         (''MEDIUM'', [''Review access logs'', ''Monitor port scanning attempts'']),
         (''LOW'', [''Log suspicious activity''])]),
      (''MALWARE'',
        [(''CRITICAL'', [''Isolate affected systems'', ''Run full system scan'',
                         ''Update antivirus'']),
         (''HIGH'', [''Review file integrity'', ''Scan for indicators of compromise'']),
         (''MEDIUM'', [''Monitor system behavior'', ''Update security definitions'']),
         (''LOW'', [''Log suspicious files''])]),
      (''FILE_SYSTEM'',
        [(''CRITICAL'', [''Lock down file permissions'', ''Review file access logs'']),
         (''HIGH'', [''Monitor file operations'', ''Check file integrity'']),
         (''MEDIUM'', [''Review access patterns'', ''Monitor sensitive directories'']),
         (''LOW'', [''Log file access attempts''])]),
      (''NETWORK'',
        [(''CRITICAL'', [''Block suspicious traffic'', ''Review firewall rules'']),
         (''HIGH'', [''Monitor network patterns'', ''Review network logs'']),
         (''MEDIUM'', [''Check unusual connections'', ''Monitor bandwidth usage'']),
         (''LOW'', [''Log network activity''])]),
      (''DATABASE'',
        [(''CRITICAL'', [''Block database access'', ''Review database permissions'']),
         (''HIGH'', [''Monitor query patterns'', ''Review database logs'']),
         (''MEDIUM'', [''Check unusual queries'', ''Monitor database load'']),
         (''LOW'', [''Log database access''])])]"

record recommendation =
  immediate :: bool
  actions :: "string list"

definition baseActions :: "(string \<times> recommendation) list" where
  "baseActions =
     [(''CRITICAL'', \<lparr>immediate = True,
          actions = [''Block source IP immediately'', ''Alert security team'',
                     ''Initiate incident response'']\<rparr>),
      (''HIGH'', \<lparr>immediate = True,
          actions = [''Investigate immediately'', ''Consider IP blocking'',
                     ''Monitor related systems'']\<rparr>),
      (''MEDIUM'', \<lparr>immediate = False,
          actions = [''Investigate within 4 hours'', ''Increase monitoring'',
                     ''Review security logs'']\<rparr>),
      (''LOW'', \<lparr>immediate = False,
          actions = [''Monitor activity'', ''Log for future reference'']\<rparr>)]"

text \<open>
  \<^verbatim>\<open>baseActions\<close> is read at one of the five threat levels only.  In
  \<^verbatim>\<open>categorySpecificActions[category]\<close> a category that names an inherited property reads
  as that property, which has no property named by a threat level, so the category actions
  are empty as for a category the table does not list.
\<close>

definition getRecommendedActions :: "jsnum \<Rightarrow> string \<Rightarrow> recommendation" where
  "getRecommendedActions score category =
     (let threatLevel = getThreatLevel score;
          baseActionSet =
            (case map_of baseActions threatLevel of
               Some b \<Rightarrow> b
             | None \<Rightarrow> \<lparr>immediate = False,
                         actions = [''Monitor activity'', ''Log for future reference'']\<rparr>);
          categoryActions =
            (if category \<noteq> [] then
               (case map_of categorySpecificActions category of
                  None \<Rightarrow> []
                | Some byLevel \<Rightarrow> (case map_of byLevel threatLevel of None \<Rightarrow> [] | Some a \<Rightarrow> a))
             else [])
      in \<lparr>immediate = immediate baseActionSet,
          actions = actions baseActionSet @ categoryActions\<rparr>)"


section \<open>The detection loop of analyzeLogs\<close>

text \<open>
  The threat object.  Its property \<^verbatim>\<open>context\<close> is the field \<open>contextOf\<close> and its
  property \<^verbatim>\<open>behaviorAnalysis\<close> the field \<open>behavior\<close> (\<open>None\<close> for \<^verbatim>\<open>null\<close>); the other
  fields carry the names of the properties.
\<close>

record threat =
  message :: string
  severity :: string
  category :: string
  timestamp :: millis
  lineNumber :: nat
  contextOf :: lineContext
  sourceIP :: "string option"
  behavior :: "behaviorAnalysis option"
  threatScore :: jsnum
  threatLevel :: string
  recommendedActions :: recommendation

text \<open>\<^verbatim>\<open>logData.split('\n')\<close>; \<open>cur\<close> is the line being read.\<close>

fun splitOn :: "char \<Rightarrow> string \<Rightarrow> string \<Rightarrow> string list" where
  "splitOn sep cur [] = [cur]"
| "splitOn sep cur (c # cs) =
     (if c = sep then cur # splitOn sep [] cs else splitOn sep (cur @ [c]) cs)"

definition splitLines :: "string \<Rightarrow> string list" where
  "splitLines logData = splitOn (CHR 0x0A) [] logData"

definition trim :: "string \<Rightarrow> string" where
  "trim s = rev (dropWhile isSpaceChar (rev (dropWhile isSpaceChar s)))"

text \<open>
  The body of \<^verbatim>\<open>SUSPICIOUS_PATTERNS.forEach\<close> for one line and one pattern.  The state
  is the list of threats collected so far and the activity log of the module-wide
  \<^verbatim>\<open>behaviorAnalyzer\<close>.  The clock is read once for the run: every
  \<^verbatim>\<open>new Date().toISOString()\<close> and \<^verbatim>\<open>Date.now()\<close> of the body is the reading \<open>now\<close>.
  A matched IP is a non-empty string, so \<^verbatim>\<open>if (ip)\<close> is the test for a match.
\<close>

definition processPattern ::
  "millis \<Rightarrow> string list \<Rightarrow> nat \<Rightarrow> string \<Rightarrow> patternEntry
     \<Rightarrow> threat list \<times> activityLog \<Rightarrow> threat list \<times> activityLog" where
  "processPattern now lines index line pattern st =
     (let threats = fst st; lg = snd st;
          previousLines = drop (index - 5) (take index lines);
          nextLines = take 5 (drop (index + 1) lines);
          ip = extractIP line
      in if rx_test (regexOf pattern) line then
           let sev = stringOf (p_severity pattern);
               cat = stringOf (p_category pattern);
               action = extractAction line cat;
               lg' = (case ip of None \<Rightarrow> lg | Some a \<Rightarrow> trackActivity now a action now lg);
               ctx = analyzeContext line previousLines nextLines;
               behaviorAnalysis =
                 (case ip of None \<Rightarrow> None | Some a \<Rightarrow> Some (analyzePattern now lg' a));
               score = calculateThreatScore sev cat now (Some ctx) behaviorAnalysis;
               recommended = getRecommendedActions score cat;
               thr = \<lparr>message = trim line, severity = sev, category = cat,
                      timestamp = now, lineNumber = index + 1, contextOf = ctx,
                      sourceIP = ip, behavior = behaviorAnalysis, threatScore = score,
                      threatLevel = getThreatLevel score,
                      recommendedActions = recommended\<rparr>
           in (threats @ [thr], lg')
         else (threats, lg))"

definition processLine ::
  "millis \<Rightarrow> string list \<Rightarrow> nat \<times> string
     \<Rightarrow> threat list \<times> activityLog \<Rightarrow> threat list \<times> activityLog" where
  "processLine now lines il st =
     fold (processPattern now lines (fst il) (snd il)) SUSPICIOUS_PATTERNS st"

definition scanLines :: "millis \<Rightarrow> activityLog \<Rightarrow> string \<Rightarrow> threat list \<times> activityLog" where
  "scanLines now lg logData =
     (let lines = splitLines logData
      in fold (processLine now lines) (enumerate 0 lines) ([], lg))"


section \<open>CorrelationEngine\<close>

record correlationRule =
  relatedCategories :: "string list"
  rule_threshold :: nat
  rule_timeWindow :: int

definition timeWindowMs :: int where
  "timeWindowMs = 15 * 60 * 1000"

definition correlationRules :: "(string \<times> correlationRule) list" where
  "correlationRules =
     [(''AUTH'', \<lparr>relatedCategories = [''RECONNAISSANCE'', ''INJECTION''],
                 rule_threshold = 3, rule_timeWindow = 5 * 60 * 1000\<rparr>),
      (''RECONNAISSANCE'', \<lparr>relatedCategories = [''INJECTION'', ''XSS'', ''AUTH''],
                 rule_threshold = 2, rule_timeWindow = 10 * 60 * 1000\<rparr>),
      (''INJECTION'', \<lparr>relatedCategories = [''XSS'', ''AUTH''],
                 rule_threshold = 2, rule_timeWindow = 5 * 60 * 1000\<rparr>)]"

text \<open>
  In \<^verbatim>\<open>correlationRules[category]\<close> a category that names an inherited property reads as
  that property, which has neither \<^verbatim>\<open>timeWindow\<close> nor \<^verbatim>\<open>relatedCategories\<close>: the
  check proceeds as for a category without a rule.
\<close>

record correlation =
  isCorrelated :: bool
  corr_type :: "string list"

definition checkCorrelation :: "threat \<Rightarrow> threat \<Rightarrow> correlation" where
  "checkCorrelation threat1 threat2 =
     (let timeDiff = \<bar>timestamp threat1 - timestamp threat2\<bar>;
          sameIP = (case sourceIP threat1 of
                      None \<Rightarrow> False
                    | Some a \<Rightarrow> (case sourceIP threat2 of
                                  None \<Rightarrow> False
                                | Some b \<Rightarrow> a \<noteq> [] \<and> b \<noteq> [] \<and> a = b));
          rule = map_of correlationRules (category threat1);
          window = (case rule of
                      None \<Rightarrow> timeWindowMs
                    | Some r \<Rightarrow> (if rule_timeWindow r \<noteq> 0 then rule_timeWindow r
                                else timeWindowMs));
          temporal = (timeDiff \<le> window);
          categorical = (case rule of
                           None \<Rightarrow> False
                         | Some r \<Rightarrow> List.member (relatedCategories r) (category threat2))
      in \<lparr>isCorrelated = (temporal \<or> sameIP \<or> categorical),
          corr_type = (if temporal then [''temporal''] else [])
                    @ (if sameIP then [''source''] else [])
                    @ (if categorical then [''categorical''] else [])\<rparr>)"

definition getThreatLevelWeight :: "string \<Rightarrow> tableValue" where
  "getThreatLevelWeight level =
     lookup_or0 [(''CRITICAL'', 4), (''HIGH'', 3), (''MEDIUM'', 2), (''LOW'', 1), (''INFO'', 0)]
       level"

text \<open>
  A group holds references to elements of the input array; a reference is the index of the
  element, so that two threats with equal contents remain distinct members.
\<close>

record correlatedGroup =
  primaryThreat :: nat
  relatedThreats :: "nat list"
  correlationType :: "string list list"
  riskLevel :: string

text \<open>
  The body of the inner \<^verbatim>\<open>threats.forEach\<close> for the primary index \<open>index\<close> and the
  candidate \<open>relatedIndex\<close>; the state is the group under construction and the set
  \<^verbatim>\<open>processedThreats\<close>.
\<close>

definition scanRelated ::
  "threat list \<Rightarrow> nat \<Rightarrow> nat \<Rightarrow> correlatedGroup \<times> nat set \<Rightarrow> correlatedGroup \<times> nat set" where
  "scanRelated threats index relatedIndex st =
     (let g = fst st; processed = snd st
      in if index = relatedIndex \<or> relatedIndex \<in> processed then st
         else let relatedThreat = threats ! relatedIndex;
                  c = checkCorrelation (threats ! index) relatedThreat
              in if isCorrelated c then
                   (g\<lparr>relatedThreats := relatedThreats g @ [relatedIndex],
                      correlationType := correlationType g @ [corr_type c],
                      riskLevel :=
                        (if js_greater (getThreatLevelWeight (threatLevel relatedThreat))
                                       (getThreatLevelWeight (riskLevel g))
                         then threatLevel relatedThreat else riskLevel g)\<rparr>,
                    insert relatedIndex processed)
                 else st)"

text \<open>The body of the outer \<^verbatim>\<open>threats.forEach\<close>.\<close>

definition groupThreat ::
  "threat list \<Rightarrow> nat \<Rightarrow> correlatedGroup list \<times> nat set \<Rightarrow> correlatedGroup list \<times> nat set" where
  "groupThreat threats index st =
     (let correlatedGroups = fst st; processed = snd st
      in if index \<in> processed then st
         else let threat = threats ! index;
                  g0 = \<lparr>primaryThreat = index, relatedThreats = [], correlationType = [],
                        riskLevel = (if threatLevel threat \<noteq> [] then threatLevel threat
                                     else ''MEDIUM'')\<rparr>;
                  r = fold (scanRelated threats index) [0..<length threats] (g0, processed)
              in if length (relatedThreats (fst r)) > 0
                 then (correlatedGroups @ [fst r], insert index (snd r))
                 else (correlatedGroups, snd r))"

definition findCorrelatedEvents :: "threat list \<Rightarrow> correlatedGroup list" where
  "findCorrelatedEvents threats =
     fst (fold (groupThreat threats) [0..<length threats] ([], {}))"

record attackPattern =
  ap_name :: string
  ap_threats :: "threat list"
  ap_timestamp :: millis
  confidence :: string

datatype patternDef =
    SequencePattern string string "string list" int
  | FrequencyPattern string string nat int
  | DiversityPattern string nat int

definition knownAttackPatterns :: "patternDef list" where
  "knownAttackPatterns =
     [SequencePattern ''Reconnaissance followed by Attack'' ''RECONNAISSANCE''
        [''INJECTION'', ''XSS'', ''AUTH''] (30 * 60 * 1000),
      FrequencyPattern ''Brute Force Attack'' ''AUTH'' 5 (5 * 60 * 1000),
      DiversityPattern ''Multi-Vector Attack'' 3 (15 * 60 * 1000)]"

text \<open>
  \<^verbatim>\<open>matchSequencePattern\<close>: the loop over \<open>i\<close> is the recursion over the list, whose head
  is \<^verbatim>\<open>threats[i]\<close> and whose tail is \<^verbatim>\<open>threats.slice(i + 1)\<close>; the loop bound
  \<^verbatim>\<open>i < threats.length - 1\<close> leaves the last element out.
\<close>

fun matchSequencePattern ::
  "string \<Rightarrow> string \<Rightarrow> string list \<Rightarrow> int \<Rightarrow> threat list \<Rightarrow> attackPattern option" where
  "matchSequencePattern name first follow window [] = None"
| "matchSequencePattern name first follow window [t] = None"
| "matchSequencePattern name first follow window (t # u # rest) =
     (if category t = first then
        (case find (\<lambda>x. List.member follow (category x)
                         \<and> timestamp x - timestamp t \<le> window) (u # rest) of
           Some matchingFollow \<Rightarrow>
             Some \<lparr>ap_name = name, ap_threats = [t, matchingFollow],
                   ap_timestamp = timestamp t, confidence = ''HIGH''\<rparr>
         | None \<Rightarrow> matchSequencePattern name first follow window (u # rest))
      else matchSequencePattern name first follow window (u # rest))"

fun findTimeWindows :: "threat list \<Rightarrow> int \<Rightarrow> threat list list" where
  "findTimeWindows [] windowSize = []"
| "findTimeWindows (t # rest) windowSize =
     (let windowThreats =
            t # takeWhile (\<lambda>u. timestamp u - timestamp t \<le> windowSize) rest
      in if length windowThreats > 1
         then windowThreats # findTimeWindows rest windowSize
         else findTimeWindows rest windowSize)"

definition windowPattern :: "string \<Rightarrow> string \<Rightarrow> threat list \<Rightarrow> attackPattern" where
  \<comment> \<open>the object built from a matched window; a window has at least two threats\<close>
  "windowPattern name conf w =
     \<lparr>ap_name = name, ap_threats = w,
      ap_timestamp = (case w of [] \<Rightarrow> 0 | t # rest \<Rightarrow> timestamp t), confidence = conf\<rparr>"

definition matchFrequencyPattern ::
  "string \<Rightarrow> string \<Rightarrow> nat \<Rightarrow> int \<Rightarrow> threat list \<Rightarrow> attackPattern option" where
  "matchFrequencyPattern name cat minOccurrences window threats =
     (let categoryThreats = filter (\<lambda>t. category t = cat) threats;
          windows = findTimeWindows categoryThreats window
      in map_option (windowPattern name ''HIGH'')
           (find (\<lambda>w. length w \<ge> minOccurrences) windows))"

definition matchDiversityPattern ::
  "string \<Rightarrow> nat \<Rightarrow> int \<Rightarrow> threat list \<Rightarrow> attackPattern option" where
  "matchDiversityPattern name uniqueCategories window threats =
     (let windows = findTimeWindows threats window
      in map_option (windowPattern name ''MEDIUM'')
           (find (\<lambda>w. length (remdups (map category w)) \<ge> uniqueCategories) windows))"

fun matchPattern :: "threat list \<Rightarrow> patternDef \<Rightarrow> attackPattern option" where
  "matchPattern threats (SequencePattern name first follow window) =
     matchSequencePattern name first follow window threats"
| "matchPattern threats (FrequencyPattern name cat minOccurrences window) =
     matchFrequencyPattern name cat minOccurrences window threats"
| "matchPattern threats (DiversityPattern name uniqueCategories window) =
     matchDiversityPattern name uniqueCategories window threats"

definition identifyAttackPatterns :: "threat list \<Rightarrow> attackPattern list" where
  "identifyAttackPatterns threats =
     (let timeOrderedThreats = sort_key timestamp threats
      in List.map_filter (matchPattern timeOrderedThreats) knownAttackPatterns)"

text \<open>
  \<^verbatim>\<open>typeCounts\<close> is an object keyed by the string of each recorded type array (its
  elements joined by commas), in insertion order.
\<close>

fun countType :: "string \<Rightarrow> (string \<times> nat) list \<Rightarrow> (string \<times> nat) list" where
  "countType k [] = [(k, 1)]"
| "countType k ((k', n) # rest) =
     (if k' = k then (k', n + 1) # rest else (k', n) # countType k rest)"

definition getMostCommonCorrelationType :: "correlatedGroup list \<Rightarrow> string" where
  "getMostCommonCorrelationType correlatedEvents =
     (let typeCounts =
            fold (\<lambda>g counts. fold (\<lambda>ty. countType (join '','' ty)) (correlationType g) counts)
              correlatedEvents [];
          sorted = sort_key (\<lambda>e. - int (snd e)) typeCounts
      in case sorted of
           [] \<Rightarrow> ''none''
         | e # rest \<Rightarrow> (if fst e \<noteq> [] then fst e else ''none''))"

record correlationSummary =
  totalCorrelatedGroups :: nat
  totalPatterns :: nat
  criticalCorrelations :: nat
  patternTypes :: "string list"
  mostCommonCorrelationType :: string

definition generateCorrelationSummary ::
  "correlatedGroup list \<Rightarrow> attackPattern list \<Rightarrow> correlationSummary" where
  "generateCorrelationSummary correlatedEvents pats =
     \<lparr>totalCorrelatedGroups = length correlatedEvents,
      totalPatterns = length pats,
      criticalCorrelations = length (filter (\<lambda>g. riskLevel g = ''CRITICAL'') correlatedEvents),
      patternTypes = map ap_name pats,
      mostCommonCorrelationType = getMostCommonCorrelationType correlatedEvents\<rparr>"

text \<open>
  The object \<^verbatim>\<open>{ correlatedEvents, patterns, summary }\<close> returned by
  \<^verbatim>\<open>correlateThreats\<close>; \<open>cr_summary = None\<close> is an object without the property
  \<^verbatim>\<open>summary\<close>.
\<close>

record correlationResult =
  cr_correlatedEvents :: "correlatedGroup list"
  cr_patterns :: "attackPattern list"
  cr_summary :: "correlationSummary option"

definition correlateThreats :: "threat list \<Rightarrow> correlationResult" where
  "correlateThreats threats =
     (if threats = [] then \<lparr>cr_correlatedEvents = [], cr_patterns = [], cr_summary = None\<rparr>
      else let groups = findCorrelatedEvents threats;
               pats = identifyAttackPatterns threats
           in \<lparr>cr_correlatedEvents = groups, cr_patterns = pats,
               cr_summary = Some (generateCorrelationSummary groups pats)\<rparr>)"

text \<open>
  A threat with the given category, time stamp, source and level, the fields the
  correlation engine reads; the other fields are those of a hit on an empty line.
\<close>

definition mkThreat :: "string \<Rightarrow> millis \<Rightarrow> string option \<Rightarrow> string \<Rightarrow> threat" where
  "mkThreat cat ts src level =
     \<lparr>message = [], severity = ''HIGH'', category = cat, timestamp = ts, lineNumber = 1,
      contextOf = \<lparr>timeWindow = 300000, occurrences = 0, relatedEvents = []\<rparr>,
      sourceIP = src, behavior = None, threatScore = Some 0, threatLevel = level,
      recommendedActions = \<lparr>immediate = False, actions = []\<rparr>\<rparr>"


section \<open>MLPreprocessor\<close>

text \<open>
  A feature object maps feature names to values and keeps the order in which the names
  were added, so it is an association list.  A value is a number, except that the two
  encoded features are lookups and can be an inherited property.  The six objects spread
  into one row have pairwise different names, so the spread is their concatenation.
\<close>

type_synonym featureRow = "(string \<times> tableValue) list"

definition numbers :: "(string \<times> int) list \<Rightarrow> featureRow" where
  "numbers kvs = map (\<lambda>kv. (fst kv, Num (snd kv))) kvs"

definition flag :: "bool \<Rightarrow> int" where
  \<comment> \<open>\<^verbatim>\<open>b ? 1 : 0\<close>\<close>
  "flag b = (if b then 1 else 0)"

definition categoryEncoding :: "(string \<times> int) list" where
  "categoryEncoding =
     [(''AUTH'', 1), (''INJECTION'', 2), (''XSS'', 3), (''RECONNAISSANCE'', 4),
      (''MALWARE'', 5), (''FILE_SYSTEM'', 6), (''NETWORK'', 7), (''DATABASE'', 8)]"

definition severityEncoding :: "(string \<times> int) list" where
  "severityEncoding =
     [(''CRITICAL'', 4), (''HIGH'', 3), (''MEDIUM'', 2), (''LOW'', 1), (''INFO'', 0)]"

definition extractTimeFeatures :: "threat \<Rightarrow> featureRow" where
  "extractTimeFeatures t =
     (let ts = timestamp t
      in numbers
         [(''hour'', getHours ts),
          (''minute'', getMinutes ts),
          (''dayOfWeek'', getDay ts),
          (''isWeekend'', flag (List.member [0, 6] (getDay ts))),
          (''isBusinessHours'', flag (getHours ts \<ge> 9 \<and> getHours ts \<le> 17)),
          (''isNightTime'', flag (getHours ts \<ge> 22 \<or> getHours ts \<le> 5))])"

text \<open>
  \<^verbatim>\<open>parseInt\<close> and \<^verbatim>\<open>Number\<close> on the dot-separated parts of a source IP.  The parts of
  an IP matched by \<open>extractIP\<close> are runs of one to three decimal digits; the model reads
  the leading run of decimal digits (\<^verbatim>\<open>parseInt\<close>) or requires the whole part to be
  digits (\<^verbatim>\<open>Number\<close>, with the empty string read as 0), and gives \<^verbatim>\<open>NaN\<close> otherwise.
  Signs, leading white space and hexadecimal prefixes, which such parts never have, are
  not modelled.
\<close>

definition digitValue :: "char \<Rightarrow> int" where
  "digitValue c = int (length (takeWhile (\<lambda>d. d \<noteq> c) ''0123456789''))"

definition decimalValue :: "string \<Rightarrow> int" where
  "decimalValue ds = foldl (\<lambda>n c. 10 * n + digitValue c) 0 ds"

definition parseInt :: "string option \<Rightarrow> jsnum" where
  "parseInt so =
     (case so of
        None \<Rightarrow> None
      | Some s \<Rightarrow> (let ds = takeWhile isDigit s
                  in if ds = [] then None else Some (decimalValue ds)))"

definition toNumber :: "string \<Rightarrow> jsnum" where
  "toNumber s = (if list_all isDigit s then Some (decimalValue s) else None)"

definition nthOpt :: "'a list \<Rightarrow> nat \<Rightarrow> 'a option" where
  \<comment> \<open>\<^verbatim>\<open>xs[i]\<close>, \<open>None\<close> for \<^verbatim>\<open>undefined\<close>\<close>
  "nthOpt xs i = (if i < length xs then Some (xs ! i) else None)"

definition orZero :: "jsnum \<Rightarrow> int" where
  \<comment> \<open>\<^verbatim>\<open>x || 0\<close>\<close>
  "orZero x = (case x of None \<Rightarrow> 0 | Some n \<Rightarrow> n)"

definition isPrivateIP :: "string \<Rightarrow> bool" where
  "isPrivateIP ip =
     (if ip = [] then False
      else let parts = map toNumber (splitOn (CHR ''.'') [] ip);
               p0 = (case nthOpt parts 0 of None \<Rightarrow> None | Some v \<Rightarrow> v);
               p1 = (case nthOpt parts 1 of None \<Rightarrow> None | Some v \<Rightarrow> v)
           in p0 = Some 10
              \<or> (p0 = Some 172
                  \<and> (case p1 of None \<Rightarrow> False | Some b \<Rightarrow> b \<ge> 16 \<and> b \<le> 31))
              \<or> (p0 = Some 192 \<and> p1 = Some 168))"

definition extractIPFeatures :: "threat \<Rightarrow> featureRow" where
  "extractIPFeatures t =
     (case sourceIP t of
        None \<Rightarrow> []
      | Some ip \<Rightarrow>
          (if ip = [] then []
           else let ipParts = splitOn (CHR ''.'') [] ip
                in numbers
                   [(''ipFirstOctet'', orZero (parseInt (nthOpt ipParts 0))),
                    (''ipSecondOctet'', orZero (parseInt (nthOpt ipParts 1))),
                    (''isPrivateIP'', flag (isPrivateIP ip)),
                    (''hasSourceIP'', 1)]))"

definition extractTextFeatures :: "threat \<Rightarrow> featureRow" where
  "extractTextFeatures t =
     (let msg = toLowerCase (message t)
      in numbers
         [(''messageLength'', int (length (message t))),
          (''containsError'', flag (rx_test (alts ''error'' [''fail'', ''invalid'']) msg)),
          (''containsAdmin'', flag (rx_test (alts ''admin'' [''root'', ''supervisor'']) msg)),
          (''containsSQLKeywords'',
             flag (rx_test (alts ''select'' [''insert'', ''update'', ''delete'', ''union'', ''drop''])
                     msg)),
          (''containsScriptTags'', flag (rx_test (alts ''<script'' [''javascript:'']) msg))])"

definition extractBehaviorFeatures :: "threat \<Rightarrow> featureRow" where
  "extractBehaviorFeatures t =
     (case behavior t of
        None \<Rightarrow> []
      | Some b \<Rightarrow>
          numbers
          [(''frequencyRate'', int (rate (ba_frequency b))),
           (''isHighFrequency'', flag (isHighFrequency (ba_frequency b))),
           (''hasSuspiciousTiming'', flag (suspicious (ba_unusualTiming b))),
           (''hasRegularPattern'', flag (regularPattern (ba_unusualTiming b) = Some True)),
           (''hasSuspiciousSequence'', flag (seq_suspicious (ba_suspiciousSequence b))),
           (''behaviorRiskScore'', ba_riskScore b)])"

definition extractContextFeatures :: "threat \<Rightarrow> featureRow" where
  "extractContextFeatures t =
     numbers
     [(''contextOccurrences'', int (occurrences (contextOf t))),
      (''hasRelatedEvents'', flag (length (relatedEvents (contextOf t)) > 0)),
      (''relatedEventsCount'', int (length (relatedEvents (contextOf t))))]"

definition extractBasicFeatures :: "threat \<Rightarrow> featureRow" where
  "extractBasicFeatures t =
     [(''categoryEncoded'', lookup_or0 categoryEncoding (category t)),
      (''severityEncoded'', lookup_or0 severityEncoding (severity t)),
      (''threatScore'', Num (orZero (threatScore t)))]"

definition extractFeatures :: "threat \<Rightarrow> featureRow" where
  "extractFeatures t =
     extractTimeFeatures t @ extractIPFeatures t @ extractTextFeatures t
     @ extractBehaviorFeatures t @ extractContextFeatures t @ extractBasicFeatures t"

text \<open>
  Statistics of a column.  \<open>values\<close> is \<^verbatim>\<open>features.map(f => f[column])\<close>: an entry is
  \<open>None\<close> where a row lacks the column (\<^verbatim>\<open>undefined\<close>) or holds an inherited property
  (\<open>numberAt\<close>).  \<^verbatim>\<open>Math.min\<close>, \<^verbatim>\<open>Math.max\<close> and the quotient of the sum convert
  such an entry to \<^verbatim>\<open>NaN\<close>, and \<^verbatim>\<open>NaN\<close> propagates; a statistic that is \<^verbatim>\<open>NaN\<close> is
  \<open>None\<close>.  The feature values are integers, so the quotients are taken in the rationals.
  The program's \<^verbatim>\<open>std\<close> is the square root of \<open>st_variance\<close>.
\<close>

type_synonym jsrat = "rat option"

record columnStats =
  st_min :: jsrat
  st_max :: jsrat
  st_mean :: jsrat
  st_variance :: jsrat

definition js_le :: "jsrat \<Rightarrow> jsrat \<Rightarrow> bool" where
  \<comment> \<open>\<^verbatim>\<open>a <= b\<close>: false when either side is \<^verbatim>\<open>NaN\<close>\<close>
  "js_le a b = (case a of None \<Rightarrow> False
                | Some x \<Rightarrow> (case b of None \<Rightarrow> False | Some y \<Rightarrow> x \<le> y))"

definition meanOf :: "int list \<Rightarrow> rat" where
  "meanOf xs = rat_of_int (sum_list xs) / rat_of_nat (length xs)"

definition varianceOf :: "int list \<Rightarrow> rat" where
  "varianceOf xs =
     sum_list (map (\<lambda>v. (rat_of_int v - meanOf xs) ^ 2) xs) / rat_of_nat (length xs)"

definition columnStatistics :: "int option list \<Rightarrow> columnStats" where
  "columnStatistics vals =
     (case those vals of
        None \<Rightarrow> \<lparr>st_min = None, st_max = None, st_mean = None, st_variance = None\<rparr>
      | Some xs \<Rightarrow>
          (case xs of
             [] \<Rightarrow> \<lparr>st_min = None, st_max = None, st_mean = None, st_variance = None\<rparr>
           | x # rest \<Rightarrow>
               \<lparr>st_min = Some (rat_of_int (fold min rest x)),
                st_max = Some (rat_of_int (fold max rest x)),
                st_mean = Some (meanOf xs),
                st_variance = Some (varianceOf xs)\<rparr>))"

definition numberAt :: "featureRow \<Rightarrow> string \<Rightarrow> int option" where
  "numberAt f column = (case map_of f column of Some (Num n) \<Rightarrow> Some n | _ \<Rightarrow> None)"

definition statsOrdered :: "columnStats \<Rightarrow> bool" where
  \<comment> \<open>\<^verbatim>\<open>min <= mean && mean <= max\<close>\<close>
  "statsOrdered s \<longleftrightarrow> js_le (st_min s) (st_mean s) \<and> js_le (st_mean s) (st_max s)"

record metadata =
  totalFeatures :: nat
  numericColumns :: "string list"
  categoricalColumns :: "string list"
  binaryColumns :: "string list"
  statistics :: "(string \<times> columnStats) list"
  categoryMapping :: "(string \<times> int) list"
  severityMapping :: "(string \<times> int) list"

text \<open>
  \<^verbatim>\<open>generateMetadata\<close>; \<open>None\<close> is the empty object returned for no rows.  A column of
  the first row is binary when its value is the number 0 or 1, numeric when it is another
  number, and categorical when it is not a number.
\<close>

definition generateMetadata :: "featureRow list \<Rightarrow> metadata option" where
  "generateMetadata features =
     (case features of
        [] \<Rightarrow> None
      | sampleFeature # others \<Rightarrow>
          (let binaryCols =
                 map fst (filter (\<lambda>kv. snd kv = Num 0 \<or> snd kv = Num 1) sampleFeature);
               numericCols =
                 map fst (filter (\<lambda>kv. case snd kv of
                                         Num n \<Rightarrow> \<not> (n = 0 \<or> n = 1)
                                       | Inherited k \<Rightarrow> False) sampleFeature);
               categoricalCols =
                 map fst (filter (\<lambda>kv. case snd kv of
                                         Num n \<Rightarrow> False
                                       | Inherited k \<Rightarrow> True) sampleFeature)
           in Some \<lparr>totalFeatures = length features,
                    numericColumns = numericCols,
                    categoricalColumns = categoricalCols,
                    binaryColumns = binaryCols,
                    statistics =
                      map (\<lambda>column.
                             (column, columnStatistics (map (\<lambda>f. numberAt f column) features)))
                        numericCols,
                    categoryMapping = categoryEncoding,
                    severityMapping = severityEncoding\<rparr>))"

record mlResult =
  ml_features :: "featureRow list"
  ml_metadata :: "metadata option"

definition prepareForML :: "threat list \<Rightarrow> mlResult" where
  "prepareForML threats =
     (let features = map extractFeatures threats
      in \<lparr>ml_features = features, ml_metadata = generateMetadata features\<rparr>)"


section \<open>analyzeLogs\<close>

text \<open>
  An element of the returned \<^verbatim>\<open>threats\<close> array: a detected threat, or the object
  \<^verbatim>\<open>{ message, severity }\<close> that stands for an empty result.
\<close>

datatype threatEntry = Detected threat | NoThreats string string

record analysisSummary =
  totalThreats :: nat
  highSeverity :: nat
  criticalThreats :: nat
  averageThreatScore :: jsnum
  categories :: "string list"
  suspiciousIPs :: "string list"
  correlationSummary :: "correlationSummary option"
  mlMetadata :: "metadata option"

record analysisResult =
  res_threats :: "threatEntry list"
  res_correlations :: correlationResult
  res_mlFeatures :: mlResult
  res_summary :: analysisSummary

datatype analysisError = NotAString

text \<open>
  \<^verbatim>\<open>Math.round\<close> of the quotient of two integers with a positive divisor: the quotient
  as a double, plus one half, rounded down.  The average is \<^verbatim>\<open>NaN\<close> when a score is
  \<^verbatim>\<open>NaN\<close>.
\<close>

definition roundQuotient :: "int \<Rightarrow> int \<Rightarrow> int" where
  "roundQuotient a n = \<lfloor>dbl (rat_of_int a / rat_of_int n) + 1 / 2\<rfloor>"

definition firstOccurrences :: "string list \<Rightarrow> string list" where
  \<comment> \<open>\<^verbatim>\<open>[...new Set(xs)]\<close>\<close>
  "firstOccurrences xs = rev (remdups (rev xs))"

text \<open>
  The result is paired with the activity log of the module-wide \<^verbatim>\<open>behaviorAnalyzer\<close>
  after the call.
\<close>

definition analyzeLogs ::
  "millis \<Rightarrow> activityLog \<Rightarrow> jsval \<Rightarrow> analysisError + (analysisResult \<times> activityLog)" where
  "analyzeLogs now lg logData =
     (case logData of
        JString text \<Rightarrow>
          (let scanned = scanLines now lg text;
               threats = fst scanned;
               lg' = snd scanned;
               correlationResults = correlateThreats threats;
               mlFeatures = prepareForML threats
           in Inr (\<lparr>res_threats =
                       (if threats \<noteq> [] then map Detected threats
                        else [NoThreats ''No threats detected.'' ''INFO'']),
                     res_correlations = correlationResults,
                     res_mlFeatures = mlFeatures,
                     res_summary =
                       \<lparr>totalThreats = length threats,
                        highSeverity = length (filter (\<lambda>t. severity t = ''HIGH'') threats),
                        criticalThreats =
                          length (filter (\<lambda>t. threatLevel t = ''CRITICAL'') threats),
                        averageThreatScore =
                          (if threats \<noteq> []
                           then (case those (map threatScore threats) of
                                   None \<Rightarrow> None
                                 | Some scores \<Rightarrow>
                                     Some (roundQuotient (sum_list scores)
                                             (int (length threats))))
                           else Some 0),
                        categories = firstOccurrences (map category threats),
                        suspiciousIPs =
                          filter (\<lambda>ip. ba_riskScore (analyzePattern now lg' ip) > 70)
                            (map fst lg'),
                        correlationSummary = cr_summary correlationResults,
                        mlMetadata = ml_metadata mlFeatures\<rparr>\<rparr>,
                    lg'))
      | _ \<Rightarrow> Inl NotAString)"


section \<open>Invariants of the loops\<close>

text \<open>
  The invariant of the detection loop for clock reading \<open>now\<close> and initial activity log
  \<open>lg0\<close>: every collected threat is stamped \<open>now\<close>, every tracked record is either a
  record of \<open>lg0\<close> or stamped \<open>now\<close>, and the source of every collected threat has a
  record stamped \<open>now\<close>.
\<close>

definition stampInv :: "millis \<Rightarrow> activityLog \<Rightarrow> threat list \<times> activityLog \<Rightarrow> bool" where
  "stampInv now lg0 st \<longleftrightarrow>
     (\<forall>t \<in> set (fst st). timestamp t = now)
     \<and> (\<forall>ip. \<forall>a \<in> set (log_activities (snd st) ip).
            a \<in> set (log_activities lg0 ip) \<or> act_timestamp a = now)
     \<and> (\<forall>t \<in> set (fst st). \<forall>ip. sourceIP t = Some ip \<longrightarrow>
            (\<exists>a \<in> set (log_activities (snd st) ip). act_timestamp a = now))"


text \<open>
  The members of a group (its primary threat and its related threats), and what every
  emitted group satisfies: it has a related threat, and each related threat is an element
  of the input other than the primary one that \<open>checkCorrelation\<close> relates to it.
\<close>

definition groupMembers :: "correlatedGroup \<Rightarrow> nat list" where
  "groupMembers g = primaryThreat g # relatedThreats g"

definition groupOk :: "threat list \<Rightarrow> correlatedGroup \<Rightarrow> bool" where
  "groupOk threats g \<longleftrightarrow>
     relatedThreats g \<noteq> [] \<and> primaryThreat g < length threats
     \<and> list_all (\<lambda>j. j < length threats \<and> j \<noteq> primaryThreat g
                      \<and> isCorrelated (checkCorrelation (threats ! primaryThreat g) (threats ! j)))
          (relatedThreats g)"

definition scanInv ::
  "threat list \<Rightarrow> nat \<Rightarrow> nat set \<Rightarrow> correlatedGroup \<times> nat set \<Rightarrow> bool" where
  "scanInv threats index processed0 st \<longleftrightarrow>
     primaryThreat (fst st) = index
     \<and> distinct (relatedThreats (fst st))
     \<and> set (relatedThreats (fst st)) \<inter> processed0 = {}
     \<and> snd st = processed0 \<union> set (relatedThreats (fst st))
     \<and> list_all (\<lambda>j. j < length threats \<and> j \<noteq> index
                      \<and> isCorrelated (checkCorrelation (threats ! index) (threats ! j)))
          (relatedThreats (fst st))"

definition groupInv :: "threat list \<Rightarrow> correlatedGroup list \<times> nat set \<Rightarrow> bool" where
  "groupInv threats st \<longleftrightarrow>
     distinct (concat (map groupMembers (fst st)))
     \<and> set (concat (map groupMembers (fst st))) = snd st
     \<and> list_all (groupOk threats) (fst st)"


text \<open>
  The grouping pass in the words of the amended C5.  For a threat \<open>t\<close> and the set of
  threats claimed so far, \<open>unclaimedRelated\<close> lists, in input order, the threats of the
  whole input other than \<open>t\<close> that are not claimed and that \<open>checkCorrelation\<close> relates to
  \<open>t\<close>.  \<open>groupingPass\<close> takes the threats in the given order: a claimed threat, or one
  without such related threats, yields no group; any other threat yields the group of its
  unclaimed related threats and claims itself and them.  The result lists each group as
  the pair of its primary threat and its related threats.
\<close>

definition unclaimedRelated :: "threat list \<Rightarrow> nat set \<Rightarrow> nat \<Rightarrow> nat list" where
  "unclaimedRelated threats claimed t =
     filter (\<lambda>u. u \<noteq> t \<and> u \<notin> claimed
                  \<and> isCorrelated (checkCorrelation (threats ! t) (threats ! u)))
       [0..<length threats]"

fun groupingPass :: "threat list \<Rightarrow> nat list \<Rightarrow> nat set \<Rightarrow> (nat \<times> nat list) list" where
  "groupingPass threats [] claimed = []"
| "groupingPass threats (t # rest) claimed =
     (if t \<in> claimed \<or> unclaimedRelated threats claimed t = []
      then groupingPass threats rest claimed
      else (t, unclaimedRelated threats claimed t)
           # groupingPass threats rest
               (insert t (claimed \<union> set (unclaimedRelated threats claimed t))))"


chapter \<open>Verified properties\<close>

section \<open>BehaviorAnalyzer\<close>

lemma rapidLoop_never: "\<not> rapidLoop prev activities"
  by (induction activities arbitrary: prev) (simp_all add: js_minus_def js_less_def)

lemma checkRapidSuccession_never: "\<not> checkRapidSuccession activities"
  by (simp add: checkRapidSuccession_def rapidLoop_never split: list.split)

lemma map_of_log_set_same: "map_of (log_set lg ip v) ip = Some v"
  by (induction lg ip v rule: log_set.induct) simp_all

lemma map_of_log_set_other: "ip' \<noteq> ip \<Longrightarrow> map_of (log_set lg ip v) ip' = map_of lg ip'"
  by (induction lg ip v rule: log_set.induct) simp_all

lemma log_activities_trackActivity:
  "log_activities (trackActivity now ip action ts lg) ip =
     filter (\<lambda>a. act_timestamp a > now - 3600000)
       (log_activities lg ip @ [\<lparr>act_action = action, act_timestamp = ts\<rparr>])"
  by (simp add: trackActivity_def cleanup_def log_activities_def log_has_def
      map_of_log_set_same Let_def split: option.split)

lemma log_activities_trackActivity_other:
  "ip' \<noteq> ip \<Longrightarrow> log_activities (trackActivity now ip action ts lg) ip' = log_activities lg ip'"
  by (simp add: trackActivity_def cleanup_def log_activities_def log_has_def
      map_of_log_set_same map_of_log_set_other Let_def split: option.split)

text \<open>
  C1.  Two records of one source 500 ms apart are consecutive records less than one second
  apart, so the rapid-succession flag should be raised; the analysis of that source reports
  \<open>rapidSuccession = false\<close>.  (By \<open>checkRapidSuccession_never\<close> the flag is false on
  every history.)
\<close>

theorem rapidSuccession_missed_500ms:
  "map act_timestamp
     (log_activities
        (trackActivity 1000 ''10.0.0.5'' ''failed_login'' 500
           (trackActivity 1000 ''10.0.0.5'' ''failed_login'' 0 [])) ''10.0.0.5'') = [0, 500]
   \<and> rapidSuccession (details (ba_suspiciousSequence
        (analyzePattern 1000
           (trackActivity 1000 ''10.0.0.5'' ''failed_login'' 500
              (trackActivity 1000 ''10.0.0.5'' ''failed_login'' 0 [])) ''10.0.0.5''))) = False"
  by code_simp

text \<open>
  The same in a run of the pipeline: three failed logins of one source in one run are
  tracked with the same clock reading, and none of the three analyses reports rapid
  succession.
\<close>

lemma scanLines_three_failed_logins:
  "map (\<lambda>t. (sourceIP t,
              map_option (\<lambda>b. rapidSuccession (details (ba_suspiciousSequence b))) (behavior t)))
     (fst (scanLines 10800000 []
        (''failed login from 10.0.0.5'' @ [CHR 0x0A] @ ''failed login from 10.0.0.5''
           @ [CHR 0x0A] @ ''failed login from 10.0.0.5'')))
   = [(Some ''10.0.0.5'', Some False), (Some ''10.0.0.5'', Some False),
      (Some ''10.0.0.5'', Some False)]"
  by code_simp




section \<open>PatternCatalog\<close>

text \<open>
  C2 as stated fails.  An entry with a regular expression, a category string and the
  severity \<open>CRITICAL\<close>, one of the five values of the specification's enumeration, does
  not pass validation.
\<close>

theorem validatePatterns_rejects_CRITICAL:
  "List.member specSeverities (JString ''CRITICAL'')
   \<and> validatePatterns [mkPattern (Lit ''rootkit'') ''CRITICAL'' ''MALWARE'' 1 300000] = False"
  by code_simp

text \<open>
  C2, amended.  \<open>validatePatterns\<close> holds exactly when every entry has a regular
  expression, a category string, and a severity that is one of the four strings
  \<open>HIGH\<close>, \<open>MEDIUM\<close>, \<open>LOW\<close>, \<open>INFO\<close>.
\<close>

theorem validatePatterns_iff:
  "validatePatterns patterns \<longleftrightarrow>
     (\<forall>p \<in> set patterns.
        (\<exists>r. p_pattern p = JRegExp r) \<and> (\<exists>c. p_category p = JString c)
        \<and> p_severity p \<in> {JString ''HIGH'', JString ''MEDIUM'', JString ''LOW'', JString ''INFO''})"
proof -
  have entry: "isRegExp (p_pattern p) \<and> isString (p_severity p) \<and> isString (p_category p)
                 \<and> List.member validSeverities (p_severity p) \<longleftrightarrow>
               (\<exists>r. p_pattern p = JRegExp r) \<and> (\<exists>c. p_category p = JString c)
               \<and> p_severity p \<in> {JString ''HIGH'', JString ''MEDIUM'', JString ''LOW'', JString ''INFO''}"
    for p :: patternEntry
    by (auto simp add: isRegExp_def isString_def validSeverities_def split: jsval.splits)
  show ?thesis
    unfolding validatePatterns_def list_all_iff using entry by blast
qed

theorem validatePatterns_iff_witness:
  "validatePatterns [mkPattern (Lit ''virus'') ''HIGH'' ''MALWARE'' 1 300000]
   \<and> validatePatterns SUSPICIOUS_PATTERNS"
proof -
  have one: "validatePatterns [mkPattern (Lit ''virus'') ''HIGH'' ''MALWARE'' 1 300000]"
    using validatePatterns_iff [of "[mkPattern (Lit ''virus'') ''HIGH'' ''MALWARE'' 1 300000]"]
    by (simp add: mkPattern_def)
  have shipped: "validatePatterns SUSPICIOUS_PATTERNS"
    by code_simp
  show ?thesis using one shipped by simp
qed


section \<open>ThreatScoring\<close>

text \<open>
  C3 as stated fails.  A context with exactly one occurrence (and its one related event)
  contributes 3, from the related-events term alone; the stated formula gives 5 + 3.
\<close>

theorem calculateContextScore_one_occurrence:
  "calculateContextScore
     (Some \<lparr>timeWindow = 300000, occurrences = 1, relatedEvents = [''failed login from a'']\<rparr>) = 3
   \<and> specContextWeight 1 1 = 8"
  by code_simp

text \<open>
  C3, amended.  The occurrence term is \<open>min (o * 5) 20\<close> only when there is more than one
  occurrence and 0 otherwise (so exactly one occurrence contributes 0); the related-events
  term is \<open>min (r * 3) 15\<close>.  With two or more occurrences the sum is the stated formula.
\<close>

theorem calculateContextScore_value:
  "calculateContextScore (Some ctx) =
     (if occurrences ctx > 1 then min (int (occurrences ctx) * 5) 20 else 0)
     + min (int (length (relatedEvents ctx)) * 3) 15
   \<and> (occurrences ctx = 1 \<longrightarrow>
        calculateContextScore (Some ctx) = min (int (length (relatedEvents ctx)) * 3) 15)
   \<and> (occurrences ctx > 1 \<longrightarrow>
        calculateContextScore (Some ctx)
          = specContextWeight (occurrences ctx) (length (relatedEvents ctx)))"
  by (simp add: calculateContextScore_def specContextWeight_def)

theorem calculateContextScore_value_witness:
  "calculateContextScore
     (Some \<lparr>timeWindow = 300000, occurrences = 2, relatedEvents = [''a'', ''b'']\<rparr>) = 16
   \<and> calculateContextScore
     (Some \<lparr>timeWindow = 300000, occurrences = 1, relatedEvents = [''a'']\<rparr>) = 3"
  using calculateContextScore_value
          [of "\<lparr>timeWindow = 300000, occurrences = 2, relatedEvents = [''a'', ''b'']\<rparr>"]
        calculateContextScore_value
          [of "\<lparr>timeWindow = 300000, occurrences = 1, relatedEvents = [''a'']\<rparr>"]
  by (simp add: specContextWeight_def)

section \<open>The detection loop\<close>

lemma fold_invariant:
  assumes "\<And>x s. x \<in> set xs \<Longrightarrow> I s \<Longrightarrow> I (f x s)" and "I s"
  shows "I (fold f xs s)"
  using assms by (induction xs arbitrary: s) simp_all

lemma processPattern_cases:
  "processPattern now lines index line pattern st = st
   \<or> (\<exists>thr. fst (processPattern now lines index line pattern st) = fst st @ [thr]
        \<and> timestamp thr = now
        \<and> category thr = stringOf (p_category pattern)
        \<and> sourceIP thr = extractIP line
        \<and> snd (processPattern now lines index line pattern st) =
            (case extractIP line of
               None \<Rightarrow> snd st
             | Some a \<Rightarrow> trackActivity now a
                           (extractAction line (stringOf (p_category pattern))) now (snd st)))"
  by (cases st) (auto simp add: processPattern_def Let_def split: option.split)

lemma trackActivity_members:
  assumes "a \<in> set (log_activities (trackActivity now ip action ts lg) ip')"
  shows "a \<in> set (log_activities lg ip') \<or> act_timestamp a = ts"
proof (cases "ip' = ip")
  case True
  then show ?thesis using assms
    by (auto simp add: log_activities_trackActivity split: if_splits)
next
  case False
  then show ?thesis using assms by (simp add: log_activities_trackActivity_other)
qed

lemma trackActivity_keeps_now:
  assumes "\<exists>a \<in> set (log_activities lg ip'). act_timestamp a = now"
  shows "\<exists>a \<in> set (log_activities (trackActivity now ip action ts lg) ip'). act_timestamp a = now"
proof (cases "ip' = ip")
  case True
  then show ?thesis using assms by (auto simp add: log_activities_trackActivity)
next
  case False
  then show ?thesis using assms by (simp add: log_activities_trackActivity_other)
qed

lemma trackActivity_records_now:
  "\<exists>a \<in> set (log_activities (trackActivity now ip action now lg) ip). act_timestamp a = now"
  by (simp add: log_activities_trackActivity)

lemma stampInv_processPattern:
  assumes "stampInv now lg0 st"
  shows "stampInv now lg0 (processPattern now lines index line pattern st)"
proof -
  let ?st' = "processPattern now lines index line pattern st"
  from processPattern_cases [of now lines index line pattern st]
  consider (same) "?st' = st"
    | (hit) thr where "fst ?st' = fst st @ [thr]" "timestamp thr = now"
        "sourceIP thr = extractIP line"
        "snd ?st' = (case extractIP line of
               None \<Rightarrow> snd st
             | Some a \<Rightarrow> trackActivity now a
                           (extractAction line (stringOf (p_category pattern))) now (snd st))"
    by blast
  then show ?thesis
  proof cases
    case same
    then show ?thesis using assms by simp
  next
    case hit
    show ?thesis
    proof (cases "extractIP line")
      case None
      then show ?thesis using assms hit by (auto simp add: stampInv_def)
    next
      case (Some src)
      let ?lg' = "trackActivity now src
                    (extractAction line (stringOf (p_category pattern))) now (snd st)"
      have lg': "snd ?st' = ?lg'" using hit Some by simp
      have a1: "\<forall>t \<in> set (fst ?st'). timestamp t = now"
        using assms hit by (auto simp add: stampInv_def)
      have a2: "\<forall>ip. \<forall>a \<in> set (log_activities (snd ?st') ip).
                  a \<in> set (log_activities lg0 ip) \<or> act_timestamp a = now"
      proof (intro allI ballI)
        fix ip a
        assume "a \<in> set (log_activities (snd ?st') ip)"
        then have "a \<in> set (log_activities (snd st) ip) \<or> act_timestamp a = now"
          unfolding lg' by (rule trackActivity_members)
        then show "a \<in> set (log_activities lg0 ip) \<or> act_timestamp a = now"
          using assms by (auto simp add: stampInv_def)
      qed
      have a3: "\<forall>t \<in> set (fst ?st'). \<forall>ip. sourceIP t = Some ip \<longrightarrow>
                  (\<exists>a \<in> set (log_activities (snd ?st') ip). act_timestamp a = now)"
      proof (intro ballI allI impI)
        fix t ip
        assume t: "t \<in> set (fst ?st')" and ip: "sourceIP t = Some ip"
        from t hit have "t \<in> set (fst st) \<or> t = thr" by auto
        then show "\<exists>a \<in> set (log_activities (snd ?st') ip). act_timestamp a = now"
        proof
          assume "t \<in> set (fst st)"
          then have "\<exists>a \<in> set (log_activities (snd st) ip). act_timestamp a = now"
            using assms ip by (auto simp add: stampInv_def)
          then show ?thesis unfolding lg' by (rule trackActivity_keeps_now)
        next
          assume "t = thr"
          then have "ip = src" using ip hit Some by simp
          then show ?thesis unfolding lg' by (simp add: trackActivity_records_now)
        qed
      qed
      show ?thesis unfolding stampInv_def using a1 a2 a3 by blast
    qed
  qed
qed

lemma stampInv_scanLines: "stampInv now lg (scanLines now lg logData)"
proof -
  have init: "stampInv now lg ([], lg)" by (simp add: stampInv_def)
  have line: "stampInv now lg (processLine now lines il st)"
    if "stampInv now lg st" for lines il st
    unfolding processLine_def
    by (rule fold_invariant [where I = "stampInv now lg"])
       (simp_all add: stampInv_processPattern that)
  show ?thesis
    unfolding scanLines_def Let_def
    by (rule fold_invariant [where I = "stampInv now lg"]) (simp_all add: line init)
qed

text \<open>
  C4.  For every log text, clock reading \<open>now\<close> and initial tracker state: every threat
  of the run carries the time stamp \<open>now\<close>; every record in the tracker after the run is
  an earlier record or carries \<open>now\<close>; the source of every threat has a tracker record
  with time stamp \<open>now\<close>; and two runs at the same \<open>now\<close> that yield equally many threats
  yield the same time-stamp fields, whatever the log lines contain.
\<close>

theorem scanLines_timestamp_is_now:
  "(\<forall>t \<in> set (fst (scanLines now lg logData)). timestamp t = now)
   \<and> (\<forall>ip. \<forall>a \<in> set (log_activities (snd (scanLines now lg logData)) ip).
          a \<in> set (log_activities lg ip) \<or> act_timestamp a = now)
   \<and> (\<forall>t \<in> set (fst (scanLines now lg logData)). \<forall>ip. sourceIP t = Some ip \<longrightarrow>
          (\<exists>a \<in> set (log_activities (snd (scanLines now lg logData)) ip).
             act_timestamp a = now))
   \<and> (length (fst (scanLines now lg logData)) = length (fst (scanLines now lg' logData')) \<longrightarrow>
        map timestamp (fst (scanLines now lg logData))
          = map timestamp (fst (scanLines now lg' logData')))"
proof -
  have inv: "stampInv now lg (scanLines now lg logData)"
    by (rule stampInv_scanLines)
  have inv': "stampInv now lg' (scanLines now lg' logData')"
    by (rule stampInv_scanLines)
  have stamps: "map timestamp (fst st) = replicate (length (fst st)) now"
    if "stampInv now l st" for l st
    using that by (auto simp add: stampInv_def map_replicate_const [symmetric])
  have same: "length (fst (scanLines now lg logData)) = length (fst (scanLines now lg' logData'))
          \<longrightarrow> map timestamp (fst (scanLines now lg logData))
              = map timestamp (fst (scanLines now lg' logData'))"
    using stamps [OF inv] stamps [OF inv'] by simp
  show ?thesis
    using inv same unfolding stampInv_def by blast
qed

theorem scanLines_timestamp_is_now_witness:
  "map timestamp (fst (scanLines 5 [] ''03:00 failed login 10.0.0.5'')) = [5]
   \<and> map timestamp (fst (scanLines 5 [] ''17:45 failed login 10.0.0.5'')) = [5]
   \<and> map act_timestamp
        (log_activities (snd (scanLines 5 [] ''03:00 failed login 10.0.0.5'')) ''10.0.0.5'') = [5]"
proof -
  have len: "length (fst (scanLines 5 [] ''03:00 failed login 10.0.0.5'')) = 1"
    by code_simp
  have len': "length (fst (scanLines 5 [] ''17:45 failed login 10.0.0.5'')) = 1"
    by code_simp
  have recs: "length (log_activities (snd (scanLines 5 [] ''03:00 failed login 10.0.0.5''))
                ''10.0.0.5'') = 1"
    by code_simp
  note inst = scanLines_timestamp_is_now
               [of 5 "[]" "''03:00 failed login 10.0.0.5''" "[]" "''17:45 failed login 10.0.0.5''"]
  from inst have all: "\<forall>t \<in> set (fst (scanLines 5 [] ''03:00 failed login 10.0.0.5'')).
                        timestamp t = 5"
    by blast
  from inst have logs: "\<forall>a \<in> set (log_activities
                          (snd (scanLines 5 [] ''03:00 failed login 10.0.0.5'')) ''10.0.0.5'').
                        act_timestamp a = 5"
    by (auto simp add: log_activities_def)
  from inst len len' have eq: "map timestamp (fst (scanLines 5 [] ''03:00 failed login 10.0.0.5''))
          = map timestamp (fst (scanLines 5 [] ''17:45 failed login 10.0.0.5''))"
    by simp
  have one: "map f xs = [v]" if "length xs = 1" "\<forall>x \<in> set xs. f x = v"
    for f :: "'a \<Rightarrow> int" and xs v
    using that by (cases xs) auto
  have first: "map timestamp (fst (scanLines 5 [] ''03:00 failed login 10.0.0.5'')) = [5]"
    using one [OF len all] .
  have third: "map act_timestamp
        (log_activities (snd (scanLines 5 [] ''03:00 failed login 10.0.0.5'')) ''10.0.0.5'') = [5]"
    using one [OF recs logs] .
  show ?thesis using first third eq by simp
qed

lemma category_processPattern:
  assumes "\<forall>t \<in> set (fst st). category t \<in> C" and "stringOf (p_category pattern) \<in> C"
  shows "\<forall>t \<in> set (fst (processPattern now lines index line pattern st)). category t \<in> C"
  using processPattern_cases [of now lines index line pattern st] assms by auto

lemma category_scanLines:
  "\<forall>t \<in> set (fst (scanLines now lg logData)).
     category t \<in> set (map (\<lambda>p. stringOf (p_category p)) SUSPICIOUS_PATTERNS)"
proof -
  define C where "C = set (map (\<lambda>p. stringOf (p_category p)) SUSPICIOUS_PATTERNS)"
  define I where "I = (\<lambda>st :: threat list \<times> activityLog. \<forall>t \<in> set (fst st). category t \<in> C)"
  have pat: "I (processPattern now lines index line x s)"
    if "x \<in> set SUSPICIOUS_PATTERNS" "I s" for lines index line x s
  proof -
    have "stringOf (p_category x) \<in> C" using that(1) by (simp add: C_def)
    then show ?thesis
      using category_processPattern [of s C x now lines index line] that(2)
      by (simp add: I_def)
  qed
  have line: "I (processLine now lines il st)" if "I st" for lines il st
    unfolding processLine_def
    by (rule fold_invariant [where I = I]) (simp_all add: pat that)
  have init: "I ([], lg)" by (simp add: I_def)
  have "I (scanLines now lg logData)"
    unfolding scanLines_def Let_def
    by (rule fold_invariant [where I = I]) (simp_all add: line init)
  then show ?thesis by (simp add: I_def C_def)
qed

lemma catalog_categories:
  "set (map (\<lambda>p. stringOf (p_category p)) SUSPICIOUS_PATTERNS) =
     {''AUTH'', ''BRUTE_FORCE'', ''SUSPICIOUS_ACCOUNT'', ''PRIVILEGE_ESCALATION'',
      ''SYSTEM_ACCESS'', ''RECONNAISSANCE'', ''MALWARE''}"
  by (simp add: SUSPICIOUS_PATTERNS_def mkPattern_def stringOf_def insert_commute)

text \<open>
  C6 as stated fails.  The line \<open>multiple failed login attempts\<close> is hit by the catalog's
  \<open>AUTH\<close> and \<open>BRUTE_FORCE\<close> patterns; the category terms of the two threats are 25 and
  0, and 0 is not between 20 and 30.
\<close>

theorem categoryScore_BRUTE_FORCE_hit:
  "map (\<lambda>t. (category t, categoryScore (category t)))
     (fst (scanLines 0 [] ''multiple failed login attempts''))
   = [(''AUTH'', Num 25), (''BRUTE_FORCE'', Num 0)]"
  by code_simp

text \<open>
  C6, amended.  For every threat of a run over the shipped catalog the category term is
  fixed by the category: 25 for \<open>AUTH\<close>, 20 for \<open>RECONNAISSANCE\<close>, 30 for \<open>MALWARE\<close>,
  and 0 for the four catalog categories that the weight table does not list
  (\<open>BRUTE_FORCE\<close>, \<open>SUSPICIOUS_ACCOUNT\<close>, \<open>PRIVILEGE_ESCALATION\<close>, \<open>SYSTEM_ACCESS\<close>).
\<close>

theorem categoryScore_of_catalog_hits:
  "\<forall>t \<in> set (fst (scanLines now lg logData)).
     (category t = ''AUTH'' \<and> categoryScore (category t) = Num 25)
     \<or> (category t = ''RECONNAISSANCE'' \<and> categoryScore (category t) = Num 20)
     \<or> (category t = ''MALWARE'' \<and> categoryScore (category t) = Num 30)
     \<or> (category t \<in> {''BRUTE_FORCE'', ''SUSPICIOUS_ACCOUNT'', ''PRIVILEGE_ESCALATION'',
                        ''SYSTEM_ACCESS''}
         \<and> categoryScore (category t) = Num 0)"
proof
  fix t
  assume "t \<in> set (fst (scanLines now lg logData))"
  then have "category t \<in> {''AUTH'', ''BRUTE_FORCE'', ''SUSPICIOUS_ACCOUNT'',
      ''PRIVILEGE_ESCALATION'', ''SYSTEM_ACCESS'', ''RECONNAISSANCE'', ''MALWARE''}"
    using category_scanLines [of now lg logData] unfolding catalog_categories by blast
  then show "(category t = ''AUTH'' \<and> categoryScore (category t) = Num 25)
     \<or> (category t = ''RECONNAISSANCE'' \<and> categoryScore (category t) = Num 20)
     \<or> (category t = ''MALWARE'' \<and> categoryScore (category t) = Num 30)
     \<or> (category t \<in> {''BRUTE_FORCE'', ''SUSPICIOUS_ACCOUNT'', ''PRIVILEGE_ESCALATION'',
                        ''SYSTEM_ACCESS''}
         \<and> categoryScore (category t) = Num 0)"
    by (auto simp add: categoryScore_def lookup_or0_def categoryWeights_def
        objectPrototypeKeys_def)
qed

theorem categoryScore_of_catalog_hits_witness:
  "map (\<lambda>t. categoryScore (category t)) (fst (scanLines 0 [] ''port scan'')) = [Num 20]"
proof -
  have cats: "map category (fst (scanLines 0 [] ''port scan'')) = [''RECONNAISSANCE'']"
    by code_simp
  then obtain t where t: "fst (scanLines 0 [] ''port scan'') = [t]" by auto
  with cats have c: "category t = ''RECONNAISSANCE''" by simp
  from categoryScore_of_catalog_hits [of 0 "[]" "''port scan''"] t c
  have "categoryScore (category t) = Num 20" by auto
  with t show ?thesis by simp
qed

section \<open>CorrelationEngine\<close>

lemma scanInv_scanRelated:
  assumes "scanInv threats index processed0 st" and "relatedIndex < length threats"
  shows "scanInv threats index processed0 (scanRelated threats index relatedIndex st)"
proof (cases "index = relatedIndex \<or> relatedIndex \<in> snd st
              \<or> \<not> isCorrelated (checkCorrelation (threats ! index) (threats ! relatedIndex))")
  case True
  then have "scanRelated threats index relatedIndex st = st"
    by (auto simp add: scanRelated_def Let_def)
  then show ?thesis using assms by simp
next
  case False
  then have new: "relatedIndex \<noteq> index" "relatedIndex \<notin> snd st"
    "isCorrelated (checkCorrelation (threats ! index) (threats ! relatedIndex))"
    by auto
  have res: "relatedThreats (fst (scanRelated threats index relatedIndex st))
               = relatedThreats (fst st) @ [relatedIndex]"
       "primaryThreat (fst (scanRelated threats index relatedIndex st)) = primaryThreat (fst st)"
       "snd (scanRelated threats index relatedIndex st) = insert relatedIndex (snd st)"
    using False by (auto simp add: scanRelated_def Let_def)
  from assms(1) have old: "primaryThreat (fst st) = index"
      "distinct (relatedThreats (fst st))"
      "set (relatedThreats (fst st)) \<inter> processed0 = {}"
      "snd st = processed0 \<union> set (relatedThreats (fst st))"
      "list_all (\<lambda>j. j < length threats \<and> j \<noteq> index
                      \<and> isCorrelated (checkCorrelation (threats ! index) (threats ! j)))
          (relatedThreats (fst st))"
    by (simp_all add: scanInv_def)
  from new(2) old(4) have fresh: "relatedIndex \<notin> set (relatedThreats (fst st))"
    "relatedIndex \<notin> processed0"
    by auto
  show ?thesis
    unfolding scanInv_def res
    using old new fresh assms(2) by auto
qed

lemma scanInv_fold:
  assumes "scanInv threats index processed0 st" and "\<forall>j \<in> set js. j < length threats"
  shows "scanInv threats index processed0 (fold (scanRelated threats index) js st)"
  using assms
  by (intro fold_invariant [where I = "scanInv threats index processed0"])
     (simp_all add: scanInv_scanRelated)

lemma groupInv_groupThreat:
  assumes "groupInv threats st" and "index < length threats"
  shows "groupInv threats (groupThreat threats index st)"
proof (cases "index \<in> snd st")
  case True
  then show ?thesis using assms by (simp add: groupThreat_def Let_def)
next
  case False
  define g0 where "g0 = \<lparr>primaryThreat = index, relatedThreats = [], correlationType = [],
                        riskLevel = (if threatLevel (threats ! index) \<noteq> []
                                     then threatLevel (threats ! index) else ''MEDIUM'')\<rparr>"
  define r where "r = fold (scanRelated threats index) [0..<length threats] (g0, snd st)"
  have step: "groupThreat threats index st =
                (if length (relatedThreats (fst r)) > 0
                 then (fst st @ [fst r], insert index (snd r)) else (fst st, snd r))"
    using False by (simp add: groupThreat_def Let_def r_def g0_def)
  have "scanInv threats index (snd st) (g0, snd st)"
    by (simp add: scanInv_def g0_def)
  then have "scanInv threats index (snd st) r"
    unfolding r_def by (rule scanInv_fold) simp
  then have r: "primaryThreat (fst r) = index"
      "distinct (relatedThreats (fst r))"
      "set (relatedThreats (fst r)) \<inter> snd st = {}"
      "snd r = snd st \<union> set (relatedThreats (fst r))"
      "list_all (\<lambda>j. j < length threats \<and> j \<noteq> index
                      \<and> isCorrelated (checkCorrelation (threats ! index) (threats ! j)))
          (relatedThreats (fst r))"
    by (simp_all add: scanInv_def)
  from assms(1) have old: "distinct (concat (map groupMembers (fst st)))"
      "set (concat (map groupMembers (fst st))) = snd st"
      "list_all (groupOk threats) (fst st)"
    by (simp_all add: groupInv_def)
  show ?thesis
  proof (cases "relatedThreats (fst r) = []")
    case True
    then show ?thesis using step r(4) assms(1) by (cases st) (simp add: groupInv_def)
  next
    case nonempty: False
    have notin: "index \<notin> set (relatedThreats (fst r))"
      using r(5) by (auto simp add: list_all_iff)
    have ok: "groupOk threats (fst r)"
      using nonempty r(1) r(5) assms(2) by (simp add: groupOk_def)
    have mem: "groupMembers (fst r) = index # relatedThreats (fst r)"
      by (simp add: groupMembers_def r(1))
    have d: "distinct (concat (map groupMembers (fst st @ [fst r])))"
      using old(1) old(2) r(2) r(3) False notin by (auto simp add: mem)
    have s: "set (concat (map groupMembers (fst st @ [fst r]))) = insert index (snd r)"
      using old(2) r(4) by (auto simp add: mem)
    have a: "list_all (groupOk threats) (fst st @ [fst r])"
      using old(3) ok by simp
    show ?thesis
      using nonempty step d s a by (simp add: groupInv_def)
  qed
qed

lemma groupInv_findCorrelatedEvents:
  "groupInv threats (fold (groupThreat threats) [0..<length threats] ([], {}))"
proof -
  have init: "groupInv threats ([], {})" by (simp add: groupInv_def)
  show ?thesis
    by (rule fold_invariant [where I = "groupInv threats"])
       (simp_all add: groupInv_groupThreat init)
qed

lemma findCorrelatedEvents_groupOk:
  "g \<in> set (findCorrelatedEvents threats) \<Longrightarrow> groupOk threats g"
  using groupInv_findCorrelatedEvents [of threats]
  by (simp add: groupInv_def findCorrelatedEvents_def list_all_iff)

lemma findCorrelatedEvents_distinct:
  "distinct (concat (map groupMembers (findCorrelatedEvents threats)))"
  using groupInv_findCorrelatedEvents [of threats]
  by (simp add: groupInv_def findCorrelatedEvents_def)

text \<open>
  C5 as stated fails.  With an \<open>AUTH\<close> threat first and an \<open>XSS\<close> threat ten minutes
  later, the first threat finds no match (its rule's window is five minutes) and stays
  unclaimed; the second threat, scanned under the default window of fifteen minutes, then
  takes the earlier threat into its group.
\<close>

theorem findCorrelatedEvents_attaches_earlier:
  "findCorrelatedEvents [mkThreat ''AUTH'' 0 None ''HIGH'', mkThreat ''XSS'' 600000 None ''LOW'']
   = [\<lparr>primaryThreat = 1, relatedThreats = [0], correlationType = [[''temporal'']],
       riskLevel = ''HIGH''\<rparr>]"
  by code_simp

lemma scanRelated_fold:
  assumes "distinct js"
  shows "relatedThreats (fst (fold (scanRelated threats i) js st))
           = relatedThreats (fst st)
             @ filter (\<lambda>j. j \<noteq> i \<and> j \<notin> snd st
                          \<and> isCorrelated (checkCorrelation (threats ! i) (threats ! j))) js
         \<and> snd (fold (scanRelated threats i) js st)
           = snd st \<union> set (filter (\<lambda>j. j \<noteq> i \<and> j \<notin> snd st
                          \<and> isCorrelated (checkCorrelation (threats ! i) (threats ! j))) js)
         \<and> primaryThreat (fst (fold (scanRelated threats i) js st)) = primaryThreat (fst st)"
  using assms
proof (induction js arbitrary: st)
  case Nil
  show ?case by simp
next
  case (Cons j js)
  let ?c = "\<lambda>P j. j \<noteq> i \<and> j \<notin> P
                  \<and> isCorrelated (checkCorrelation (threats ! i) (threats ! j))"
  from Cons.prems have d: "distinct js" and fresh: "j \<notin> set js" by simp_all
  note IH = Cons.IH [OF d]
  show ?case
  proof (cases "?c (snd st) j")
    case False
    then have same: "scanRelated threats i j st = st"
      by (auto simp add: scanRelated_def Let_def)
    show ?thesis using IH [of st] False by (simp add: same)
  next
    case True
    let ?st' = "scanRelated threats i j st"
    have st': "relatedThreats (fst ?st') = relatedThreats (fst st) @ [j]"
        "primaryThreat (fst ?st') = primaryThreat (fst st)"
        "snd ?st' = insert j (snd st)"
      using True by (auto simp add: scanRelated_def Let_def)
    have flt: "filter (?c (insert j (snd st))) js = filter (?c (snd st)) js"
      using fresh by (intro filter_cong) auto
    note step = IH [of ?st', unfolded st' flt]
    have "fold (scanRelated threats i) (j # js) st = fold (scanRelated threats i) js ?st'"
      by simp
    then show ?thesis
      using step True by simp
  qed
qed

lemma groupThreat_step:
  "groupThreat threats i (gs, P) =
     (if i \<in> P \<or> unclaimedRelated threats P i = [] then (gs, P)
      else (gs @ [fst (fold (scanRelated threats i) [0..<length threats]
                         (\<lparr>primaryThreat = i, relatedThreats = [], correlationType = [],
                           riskLevel = (if threatLevel (threats ! i) \<noteq> []
                                        then threatLevel (threats ! i) else ''MEDIUM'')\<rparr>, P))],
            insert i (P \<union> set (unclaimedRelated threats P i))))
   \<and> (i \<notin> P \<longrightarrow>
        relatedThreats (fst (fold (scanRelated threats i) [0..<length threats]
                         (\<lparr>primaryThreat = i, relatedThreats = [], correlationType = [],
                           riskLevel = (if threatLevel (threats ! i) \<noteq> []
                                        then threatLevel (threats ! i) else ''MEDIUM'')\<rparr>, P)))
          = unclaimedRelated threats P i
        \<and> primaryThreat (fst (fold (scanRelated threats i) [0..<length threats]
                         (\<lparr>primaryThreat = i, relatedThreats = [], correlationType = [],
                           riskLevel = (if threatLevel (threats ! i) \<noteq> []
                                        then threatLevel (threats ! i) else ''MEDIUM'')\<rparr>, P)))
          = i)"
proof -
  define g0 where "g0 = \<lparr>primaryThreat = i, relatedThreats = [], correlationType = [],
                        riskLevel = (if threatLevel (threats ! i) \<noteq> []
                                     then threatLevel (threats ! i) else ''MEDIUM'')\<rparr>"
  define r where "r = fold (scanRelated threats i) [0..<length threats] (g0, P)"
  have scan: "relatedThreats (fst r) = unclaimedRelated threats P i"
       "snd r = P \<union> set (unclaimedRelated threats P i)"
       "primaryThreat (fst r) = i"
    using scanRelated_fold [of "[0..<length threats]" threats i "(g0, P)"]
    by (simp_all add: r_def unclaimedRelated_def g0_def)
  have "groupThreat threats i (gs, P) =
          (if i \<in> P then (gs, P)
           else if length (relatedThreats (fst r)) > 0
                then (gs @ [fst r], insert i (snd r)) else (gs, snd r))"
    by (simp add: groupThreat_def Let_def r_def g0_def)
  then show ?thesis
    using scan unfolding r_def g0_def by auto
qed

lemma groupThreat_fold:
  "map (\<lambda>g. (primaryThreat g, relatedThreats g))
     (fst (fold (groupThreat threats) is (gs, P)))
   = map (\<lambda>g. (primaryThreat g, relatedThreats g)) gs @ groupingPass threats is P"
proof (induction "is" arbitrary: gs P)
  case Nil
  show ?case by simp
next
  case (Cons i rest)
  show ?case
  proof (cases "i \<in> P \<or> unclaimedRelated threats P i = []")
    case True
    then have "groupThreat threats i (gs, P) = (gs, P)"
      using groupThreat_step [of threats i gs P] by simp
    then show ?thesis using Cons.IH [of gs P] True by simp
  next
    case False
    then show ?thesis
      using groupThreat_step [of threats i gs P] Cons.IH by simp
  qed
qed

text \<open>
  C5, amended.  The grouping pass of \<open>findCorrelatedEvents\<close> is \<open>groupingPass\<close> over the
  input in its original order, starting with nothing claimed: the related threats of the
  group of a not-yet-claimed threat \<open>t\<close> are exactly the not-yet-claimed threats of the whole
  input, before or after \<open>t\<close>, other than \<open>t\<close>, that \<open>checkCorrelation\<close> relates to \<open>t\<close>
  (with \<open>t\<close> as its first argument).  In particular every related threat is an element of
  the input different from its primary threat and related to it.
\<close>

theorem findCorrelatedEvents_related:
  "map (\<lambda>g. (primaryThreat g, relatedThreats g)) (findCorrelatedEvents threats)
     = groupingPass threats [0..<length threats] {}
   \<and> (\<forall>g \<in> set (findCorrelatedEvents threats). \<forall>j \<in> set (relatedThreats g).
         j \<noteq> primaryThreat g \<and> j < length threats \<and> primaryThreat g < length threats
         \<and> isCorrelated (checkCorrelation (threats ! primaryThreat g) (threats ! j)))"
proof
  show "map (\<lambda>g. (primaryThreat g, relatedThreats g)) (findCorrelatedEvents threats)
          = groupingPass threats [0..<length threats] {}"
    using groupThreat_fold [of threats "[0..<length threats]" "[]" "{}"]
    by (simp add: findCorrelatedEvents_def)
next
  show "\<forall>g \<in> set (findCorrelatedEvents threats). \<forall>j \<in> set (relatedThreats g).
         j \<noteq> primaryThreat g \<and> j < length threats \<and> primaryThreat g < length threats
         \<and> isCorrelated (checkCorrelation (threats ! primaryThreat g) (threats ! j))"
  proof (intro ballI)
    fix g j
    assume "g \<in> set (findCorrelatedEvents threats)" and j: "j \<in> set (relatedThreats g)"
    then have "groupOk threats g" by (simp add: findCorrelatedEvents_groupOk)
    with j show "j \<noteq> primaryThreat g \<and> j < length threats \<and> primaryThreat g < length threats
       \<and> isCorrelated (checkCorrelation (threats ! primaryThreat g) (threats ! j))"
      by (auto simp add: groupOk_def list_all_iff)
  qed
qed

theorem findCorrelatedEvents_related_witness:
  "map (\<lambda>g. (primaryThreat g, relatedThreats g))
     (findCorrelatedEvents
        [mkThreat ''AUTH'' 0 None ''HIGH'', mkThreat ''XSS'' 600000 None ''LOW'',
         mkThreat ''XSS'' 660000 None ''LOW'', mkThreat ''MALWARE'' 90000000 None ''LOW''])
     = [(1, [0, 2])]
   \<and> isCorrelated (checkCorrelation (mkThreat ''XSS'' 600000 None ''LOW'')
                                     (mkThreat ''AUTH'' 0 None ''HIGH''))
   \<and> isCorrelated (checkCorrelation (mkThreat ''XSS'' 600000 None ''LOW'')
                                     (mkThreat ''XSS'' 660000 None ''LOW''))"
proof -
  let ?ts = "[mkThreat ''AUTH'' 0 None ''HIGH'', mkThreat ''XSS'' 600000 None ''LOW'',
              mkThreat ''XSS'' 660000 None ''LOW'', mkThreat ''MALWARE'' 90000000 None ''LOW'']"
  have pass: "groupingPass ?ts [0..<length ?ts] {} = [(1, [0, 2])]"
    by code_simp
  note inst = findCorrelatedEvents_related [of ?ts]
  from inst pass
  have groups: "map (\<lambda>g. (primaryThreat g, relatedThreats g)) (findCorrelatedEvents ?ts)
                  = [(1, [0, 2])]"
    by simp
  then obtain g where g: "findCorrelatedEvents ?ts = [g]"
      "primaryThreat g = 1" "relatedThreats g = [0, 2]"
    by auto
  from inst g have "isCorrelated (checkCorrelation (?ts ! 1) (?ts ! 0))"
      "isCorrelated (checkCorrelation (?ts ! 1) (?ts ! 2))"
    by simp_all
  with groups show ?thesis by simp
qed

text \<open>
  C10.  For every input list, no element occurs twice among the members (primary or
  related) of the emitted groups, and an element that \<open>checkCorrelation\<close> relates to no
  other element, in either argument order, is a member of no group.
\<close>

theorem findCorrelatedEvents_at_most_one_group:
  "distinct (concat (map groupMembers (findCorrelatedEvents threats)))
   \<and> (\<forall>i < length threats.
        (\<forall>j < length threats. j \<noteq> i \<longrightarrow>
           \<not> isCorrelated (checkCorrelation (threats ! i) (threats ! j))
           \<and> \<not> isCorrelated (checkCorrelation (threats ! j) (threats ! i)))
        \<longrightarrow> i \<notin> set (concat (map groupMembers (findCorrelatedEvents threats))))"
proof (intro conjI allI impI)
  show "distinct (concat (map groupMembers (findCorrelatedEvents threats)))"
    by (rule findCorrelatedEvents_distinct)
next
  fix i
  assume "i < length threats"
    and alone: "\<forall>j < length threats. j \<noteq> i \<longrightarrow>
           \<not> isCorrelated (checkCorrelation (threats ! i) (threats ! j))
           \<and> \<not> isCorrelated (checkCorrelation (threats ! j) (threats ! i))"
  show "i \<notin> set (concat (map groupMembers (findCorrelatedEvents threats)))"
  proof
    assume "i \<in> set (concat (map groupMembers (findCorrelatedEvents threats)))"
    then obtain g where g: "g \<in> set (findCorrelatedEvents threats)"
      and i: "i = primaryThreat g \<or> i \<in> set (relatedThreats g)"
      by (auto simp add: groupMembers_def)
    from g have ok: "groupOk threats g" by (rule findCorrelatedEvents_groupOk)
    from i show False
    proof
      assume p: "i = primaryThreat g"
      from ok obtain j where "j \<in> set (relatedThreats g)"
        by (cases "relatedThreats g") (auto simp add: groupOk_def)
      with ok p have "j < length threats" "j \<noteq> i"
        "isCorrelated (checkCorrelation (threats ! i) (threats ! j))"
        by (auto simp add: groupOk_def list_all_iff)
      with alone show False by blast
    next
      assume r: "i \<in> set (relatedThreats g)"
      with ok have "primaryThreat g < length threats" "primaryThreat g \<noteq> i"
        "isCorrelated (checkCorrelation (threats ! primaryThreat g) (threats ! i))"
        by (auto simp add: groupOk_def list_all_iff)
      with alone show False by blast
    qed
  qed
qed

theorem findCorrelatedEvents_at_most_one_group_witness:
  "concat (map groupMembers
     (findCorrelatedEvents
        [mkThreat ''AUTH'' 0 (Some ''10.0.0.5'') ''HIGH'',
         mkThreat ''AUTH'' 1000 (Some ''10.0.0.5'') ''CRITICAL'',
         mkThreat ''MALWARE'' 90000000 None ''LOW''])) = [0, 1]
   \<and> 2 \<notin> set (concat (map groupMembers
     (findCorrelatedEvents
        [mkThreat ''AUTH'' 0 (Some ''10.0.0.5'') ''HIGH'',
         mkThreat ''AUTH'' 1000 (Some ''10.0.0.5'') ''CRITICAL'',
         mkThreat ''MALWARE'' 90000000 None ''LOW''])))"
proof -
  let ?a = "mkThreat ''AUTH'' 0 (Some ''10.0.0.5'') ''HIGH''"
  let ?b = "mkThreat ''AUTH'' 1000 (Some ''10.0.0.5'') ''CRITICAL''"
  let ?c = "mkThreat ''MALWARE'' 90000000 None ''LOW''"
  have ca: "\<not> isCorrelated (checkCorrelation ?c ?a)" by code_simp
  have cb: "\<not> isCorrelated (checkCorrelation ?c ?b)" by code_simp
  have ac: "\<not> isCorrelated (checkCorrelation ?a ?c)" by code_simp
  have bc: "\<not> isCorrelated (checkCorrelation ?b ?c)" by code_simp
  have alone: "\<forall>j < length [?a, ?b, ?c]. j \<noteq> 2 \<longrightarrow>
           \<not> isCorrelated (checkCorrelation ([?a, ?b, ?c] ! 2) ([?a, ?b, ?c] ! j))
           \<and> \<not> isCorrelated (checkCorrelation ([?a, ?b, ?c] ! j) ([?a, ?b, ?c] ! 2))"
  proof (intro allI impI)
    fix j :: nat
    assume "j < length [?a, ?b, ?c]" and "j \<noteq> 2"
    then have "j = 0 \<or> j = 1" by auto
    then show "\<not> isCorrelated (checkCorrelation ([?a, ?b, ?c] ! 2) ([?a, ?b, ?c] ! j))
           \<and> \<not> isCorrelated (checkCorrelation ([?a, ?b, ?c] ! j) ([?a, ?b, ?c] ! 2))"
      using ca cb ac bc by auto
  qed
  have groups: "concat (map groupMembers (findCorrelatedEvents [?a, ?b, ?c])) = [0, 1]"
    by code_simp
  from findCorrelatedEvents_at_most_one_group [of "[?a, ?b, ?c]"] alone
  have "2 \<notin> set (concat (map groupMembers (findCorrelatedEvents [?a, ?b, ?c])))"
    by simp
  with groups show ?thesis by simp
qed

text \<open>
  C7.  On the empty list \<open>correlateThreats\<close> returns an object with the groups and the
  patterns but without a summary; on a non-empty list the summary is present.
\<close>

theorem correlateThreats_empty_no_summary:
  "correlateThreats [] = \<lparr>cr_correlatedEvents = [], cr_patterns = [], cr_summary = None\<rparr>"
  by (simp add: correlateThreats_def)

text \<open>The run of the pipeline on the empty text has no correlation summary.\<close>

lemma analyzeLogs_empty_text:
  "map_sum id (\<lambda>r. (res_threats (fst r), correlationSummary (res_summary (fst r))))
     (analyzeLogs 0 [] (JString []))
   = Inr ([NoThreats ''No threats detected.'' ''INFO''], None)"
  by code_simp

lemma correlateThreats_nonempty_summary:
  "threats \<noteq> [] \<Longrightarrow>
     cr_summary (correlateThreats threats)
       = Some (generateCorrelationSummary (findCorrelatedEvents threats)
                 (identifyAttackPatterns threats))"
  by (simp add: correlateThreats_def Let_def)

section \<open>MLPreprocessor\<close>

lemma prepareForML_length: "length (ml_features (prepareForML threats)) = length threats"
  by (simp add: prepareForML_def Let_def)

lemma sum_list_lower: "\<forall>v \<in> set xs. m \<le> v \<Longrightarrow> m * int (length xs) \<le> sum_list xs"
  by (induction xs) (auto simp add: algebra_simps)

lemma sum_list_upper: "\<forall>v \<in> set xs. v \<le> m \<Longrightarrow> sum_list xs \<le> m * int (length xs)"
  by (induction xs) (auto simp add: algebra_simps)

text \<open>Where every row defines the column, its minimum, mean and maximum are in order.\<close>

lemma columnStatistics_ordered:
  assumes "those vals = Some xs" and "xs \<noteq> []"
  shows "statsOrdered (columnStatistics vals)"
proof -
  obtain x rest where xs: "xs = x # rest" using assms(2) by (cases xs) auto
  have n: "(0::rat) < rat_of_nat (length xs)" using xs by simp
  have lo: "\<forall>v \<in> set xs. fold min rest x \<le> v"
    unfolding xs by (simp add: Min.set_eq_fold [symmetric])
  have hi: "\<forall>v \<in> set xs. v \<le> fold max rest x"
    unfolding xs by (simp add: Max.set_eq_fold [symmetric])
  have "rat_of_int (fold min rest x * int (length xs)) \<le> rat_of_int (sum_list xs)"
    using sum_list_lower [OF lo] by (simp only: of_int_le_iff)
  then have a: "rat_of_int (fold min rest x) \<le> meanOf xs"
    using n by (simp add: meanOf_def pos_le_divide_eq)
  have "rat_of_int (sum_list xs) \<le> rat_of_int (fold max rest x * int (length xs))"
    using sum_list_upper [OF hi] by (simp only: of_int_le_iff)
  then have b: "meanOf xs \<le> rat_of_int (fold max rest x)"
    using n by (simp add: meanOf_def pos_divide_le_eq)
  show ?thesis
    using a b assms(1) by (simp add: columnStatistics_def statsOrdered_def js_le_def xs)
qed

text \<open>
  C8.  A run over two lines, the first with a source IP and the second without, yields two
  threats and two feature rows.  The first row classifies \<open>ipFirstOctet\<close> and
  \<open>ipSecondOctet\<close> as numeric; the second row lacks them, their statistics are
  \<^verbatim>\<open>NaN\<close>, and \<open>min \<le> mean \<le> max\<close> is false for both columns.
\<close>

theorem prepareForML_mixed_sources_unordered:
  "length (ml_features (prepareForML (fst (scanLines 0 []
       (''failed login from 192.168.1.10'' @ [CHR 0x0A] @ ''failed login''))))) = 2
   \<and> map_option (\<lambda>md. map (\<lambda>cs. (fst cs, statsOrdered (snd cs))) (statistics md))
        (ml_metadata (prepareForML (fst (scanLines 0 []
           (''failed login from 192.168.1.10'' @ [CHR 0x0A] @ ''failed login'')))))
     = Some [(''dayOfWeek'', True), (''ipFirstOctet'', False), (''ipSecondOctet'', False),
             (''messageLength'', True), (''severityEncoded'', True), (''threatScore'', True)]"
  by code_simp


section \<open>Values at the edges of the model\<close>

text \<open>
  The mean absolute deviation of these six intervals is exactly 100; in double precision
  it is the double just below 100, and the intervals count as regular.
\<close>

lemma checkRegularIntervals_rounding:
  "checkRegularIntervals [220, 205, 20, 436, 292, 317]"
  by code_simp

text \<open>A no-break space between the two words is white space for the first pattern.\<close>

lemma scanLines_no_break_space:
  "map category (fst (scanLines 0 [] (''failed'' @ [CHR 0xA0] @ ''login''))) = [''AUTH'']"
  by code_simp

text \<open>
  A severity or category that names an inherited property gives the score \<^verbatim>\<open>NaN\<close> and
  the level \<open>INFO\<close>; a threat level that names one is not outranked by a number.
\<close>

lemma calculateThreatScore_inherited:
  "calculateThreatScore ''HIGH'' ''constructor'' 0 None None = None
   \<and> calculateThreatScore ''toString'' ''AUTH'' 0 None None = None
   \<and> getThreatLevel None = ''INFO''
   \<and> map riskLevel
        (findCorrelatedEvents
           [mkThreat ''AUTH'' 0 None ''constructor'', mkThreat ''AUTH'' 0 None ''HIGH''])
      = [''constructor'']"
  by code_simp

end
